theory Spec2Isabelle
  imports Main
begin

section \<open>The REST client (packages/disci/src/utils/REST.ts)\<close>

text \<open>
  The class \<open>Rest\<close> holds three strings. \<open>fetch\<close> is the host runtime's and is taken
  as a parameter: a function from the request it is given to the response it answers
  with. Every operation returns the list of requests it handed to \<open>fetch\<close> together
  with its result, so that what a helper issues can be read off.
\<close>

record Rest =
  authPrefix :: string
  authToken :: string
  rootUrl :: string

text \<open>
  \<open>RESTCommonOptions\<close>: each of the three fields (\<open>headers\<close>, \<open>body\<close>, \<open>query\<close>) is
  optional. \<open>opt_body\<close> stands for the outcome of \<open>JSON.stringify(opts?.body)\<close>.
\<close>

record RESTCommonOptions =
  opt_headers :: "(string \<rightharpoonup> string) option"
  opt_body :: "string option"
  opt_query :: "(string \<times> string) list option"

text \<open>
  The URL that \<open>getUrl\<close> builds: the part before the query, and the query parameters
  (handed to \<open>URLSearchParams\<close>) when there are any.
\<close>

record url =
  url_base :: string
  url_query :: "(string \<times> string) list option"

record fetch_request =
  fr_url :: url
  fr_method :: string
  fr_headers :: "string \<rightharpoonup> string"
  fr_body :: "string option"

text \<open>
  What the code reads of a \<open>Response\<close>: \<open>json\<close> is \<open>None\<close> when \<open>req.json()\<close>
  fails; for a response that is not \<open>ok\<close>, \<open>tryAndValue\<close> is taken to turn that failure
  into an absent cause.
\<close>

record 'v fetch_response =
  ok :: bool
  status :: nat
  statusText :: string
  content_type :: "string option"
  json :: "'v option"
  arrayBuffer :: 'v

datatype 'v rest_error =
  DisciRestError string string nat string "'v option"
  | JsonSyntaxError

definition UserAgent :: string where
  "UserAgent = ''DiscordBot (https://github.com/typicalninja493/disci, 0.0.1)''"

definition startsWith :: "string \<Rightarrow> string \<Rightarrow> bool" where
  "startsWith s p = (take (length p) s = p)"

fun str_includes :: "string \<Rightarrow> string \<Rightarrow> bool" where
  "str_includes [] p = (p = [])"
| "str_includes (c # cs) p = (startsWith (c # cs) p \<or> str_includes cs p)"

definition authHeader :: "Rest \<Rightarrow> string" where
  "authHeader r = authPrefix r @ '' '' @ authToken r"

definition getUrl :: "Rest \<Rightarrow> string \<Rightarrow> (string \<times> string) list option \<Rightarrow> url" where
  "getUrl r path queryParams =
     \<lparr> url_base =
         (if startsWith path ''/'' then rootUrl r @ path
          else if startsWith path ''https://'' \<or> startsWith path ''http://'' then path
          else rootUrl r @ ''/'' @ path),
       url_query = queryParams \<rparr>"

definition request_headers :: "Rest \<Rightarrow> RESTCommonOptions option \<Rightarrow> (string \<rightharpoonup> string)" where
  "request_headers r opts =
     [''Content-Type'' \<mapsto> ''application/json'',
      ''Authorization'' \<mapsto> authHeader r,
      ''User-Agent'' \<mapsto> UserAgent]
     ++ (case Option.bind opts opt_headers of None \<Rightarrow> Map.empty | Some h \<Rightarrow> h)"

definition makeRequest ::
  "Rest \<Rightarrow> (fetch_request \<Rightarrow> 'v fetch_response) \<Rightarrow> string \<Rightarrow> string \<Rightarrow>
   RESTCommonOptions option \<Rightarrow> fetch_request list \<times> ('v rest_error + 'v)" where
  "makeRequest r fetch method path opts =
     (let request =
            \<lparr> fr_url = getUrl r path (Option.bind opts opt_query),
              fr_method = method,
              fr_headers = request_headers r opts,
              fr_body = Option.bind opts opt_body \<rparr>;
          req = fetch request
      in ([request],
          (if \<not> ok req
           then Inl (DisciRestError method path (status req) (statusText req) (json req))
           else (case content_type req of
                   None \<Rightarrow> Inr (arrayBuffer req)
                 | Some contentType \<Rightarrow>
                     (if str_includes contentType ''application/json''
                      then (case json req of None \<Rightarrow> Inl JsonSyntaxError | Some v \<Rightarrow> Inr v)
                      else Inr (arrayBuffer req))))))"

text \<open>The five helpers, with the method string each one passes on.\<close>

definition get ::
  "Rest \<Rightarrow> (fetch_request \<Rightarrow> 'v fetch_response) \<Rightarrow> string \<Rightarrow>
   RESTCommonOptions option \<Rightarrow> fetch_request list \<times> ('v rest_error + 'v)" where
  "get r fetch path opts = makeRequest r fetch ''GET'' path opts"

definition post ::
  "Rest \<Rightarrow> (fetch_request \<Rightarrow> 'v fetch_response) \<Rightarrow> string \<Rightarrow>
   RESTCommonOptions option \<Rightarrow> fetch_request list \<times> ('v rest_error + 'v)" where
  "post r fetch path opts = makeRequest r fetch ''GET'' path opts"

definition put ::
  "Rest \<Rightarrow> (fetch_request \<Rightarrow> 'v fetch_response) \<Rightarrow> string \<Rightarrow>
   RESTCommonOptions option \<Rightarrow> fetch_request list \<times> ('v rest_error + 'v)" where
  "put r fetch path opts = makeRequest r fetch ''put'' path opts"

definition patch ::
  "Rest \<Rightarrow> (fetch_request \<Rightarrow> 'v fetch_response) \<Rightarrow> string \<Rightarrow>
   RESTCommonOptions option \<Rightarrow> fetch_request list \<times> ('v rest_error + 'v)" where
  "patch r fetch path opts = makeRequest r fetch ''GET'' path opts"

definition delete ::
  "Rest \<Rightarrow> (fetch_request \<Rightarrow> 'v fetch_response) \<Rightarrow> string \<Rightarrow>
   RESTCommonOptions option \<Rightarrow> fetch_request list \<times> ('v rest_error + 'v)" where
  "delete r fetch path opts = makeRequest r fetch ''DELETE'' path opts"

text \<open>The methods of the requests an operation issued.\<close>

definition issued_methods :: "fetch_request list \<times> 'a \<Rightarrow> string list" where
  "issued_methods out = map fr_method (fst out)"


section \<open>JavaScript values, errors and promises\<close>

text \<open>The interaction types of \<open>discord-api-types\<close>.\<close>

datatype InteractionType =
  Ping | ApplicationCommand | MessageComponent | ApplicationCommandAutocomplete | ModalSubmit
  | OtherType nat

text \<open>
  What the handlers throw or reject with. \<open>StringReason\<close> is a bare string used as a
  rejection, \<open>UnsupportedInteraction t\<close> the string
  \<open>UnsupportedInteraction: Unsupported Interaction of type t received\<close>, \<open>Foreign\<close> a
  value raised by a collaborator (the crypto library, the transport adapter, an abort
  reason), \<open>TypeError\<close> the runtime's own. \<open>DoubleResponse\<close> is the condition the
  specification names for a second resolution.
\<close>

datatype jserr =
  DisciValidationError string
  | DisciParseError string
  | Error string
  | TypeError string
  | StringReason string
  | UnsupportedInteraction InteractionType
  | DoubleResponse
  | Foreign string

text \<open>A promise settles once: \<open>resolve\<close> and \<open>reject\<close> act on a pending promise only.\<close>

datatype 'a promise = Pending | Fulfilled 'a | Rejected jserr

text \<open>Calling a function that returns a promise: it throws, or hands the promise back.\<close>

datatype 'a call = Throws jserr | Returns "'a promise"

record IRequest =
  headers :: "string \<rightharpoonup> string"
  body :: "string option"

record RESTClientOptions =
  token :: "string option"
  authPrefix_opt :: "string option"
  rootUrl_opt :: "string option"

text \<open>
  The values an options object holds. A function value carries what it does when called
  on a request, the only call whose result the handler uses.
\<close>

datatype jsval =
  Undefined
  | Null
  | Bool bool
  | Num nat
  | Str string
  | Function "IRequest \<Rightarrow> bool call"
  | RestOptions RESTClientOptions

fun truthy :: "jsval \<Rightarrow> bool" where
  "truthy Undefined = False"
| "truthy Null = False"
| "truthy (Bool b) = b"
| "truthy (Num n) = (n \<noteq> 0)"
| "truthy (Str s) = (s \<noteq> [])"
| "truthy (Function f) = True"
| "truthy (RestOptions r) = True"

type_synonym object = "string \<rightharpoonup> jsval"

text \<open>Reading a property: an absent one reads \<open>undefined\<close>.\<close>

definition property :: "object \<Rightarrow> string \<Rightarrow> jsval" where
  "property obj k = (case obj k of None \<Rightarrow> Undefined | Some v \<Rightarrow> v)"

text \<open>\<open>typeof v === 'function'\<close>.\<close>

fun is_function :: "jsval \<Rightarrow> bool" where
  "is_function (Function f) = True"
| "is_function v = False"

text \<open>\<open>!s\<close> for an optional string: absent or empty.\<close>

definition falsy_str :: "string option \<Rightarrow> bool" where
  "falsy_str s = (case s of None \<Rightarrow> True | Some t \<Rightarrow> t = [])"

section \<open>The heap of option objects and \<open>Object.assign\<close>\<close>

text \<open>
  Objects live in a heap, a list indexed by reference. The module-level
  \<open>defaultOptions\<close> of \<open>utils/constants\<close> is the object at reference 0; its contents
  are not among the sources and stay a parameter (whatever the heap holds there).
\<close>

type_synonym ref = nat
type_synonym heap = "object list"

definition defaultOptions :: ref where
  "defaultOptions = 0"

definition deref :: "heap \<Rightarrow> ref \<Rightarrow> object" where
  "deref hp r = (if r < length hp then hp ! r else Map.empty)"

text \<open>The object literal \<open>{}\<close>: a fresh empty object.\<close>

definition new_object :: "heap \<Rightarrow> heap \<times> ref" where
  "new_object hp = (hp @ [Map.empty], length hp)"

text \<open>
  \<open>Object.assign(target, ...sources)\<close> copies the sources' properties into the target, in
  order, and returns the target.
\<close>

definition Object_assign :: "heap \<Rightarrow> ref \<Rightarrow> object list \<Rightarrow> heap \<times> ref" where
  "Object_assign hp target sources = (hp[target := foldl (++) (deref hp target) sources], target)"

section \<open>The Discord payloads\<close>

datatype InteractionResponseType =
  Pong | ChannelMessageWithSource | DeferredChannelMessageWithSource | DeferredMessageUpdate
  | UpdateMessage | ApplicationCommandAutocompleteResult | Modal

text \<open>Of an \<open>APIInteraction\<close> the handler reads \<open>id\<close> and \<open>type\<close>.\<close>

record APIInteraction =
  raw_id :: string
  raw_type :: InteractionType

record APIInteractionResponse =
  rtype :: InteractionResponseType
  rdata :: "string option"

datatype EResponseErrorMessages = Unauthorized | InternalError | TimedOut | NotSupported

datatype payload = ErrorMessage EResponseErrorMessages | Json APIInteractionResponse

record IResponse =
  responseData :: payload
  statusCode :: "nat option"

text \<open>
  Modelled from the spec: \<open>toResponse\<close> of \<open>utils/request\<close>, which is not among the
  sources (the specification's \<open>denormalize(responsePayload, statusCode)\<close>). The model
  keeps the two arguments; \<open>None\<close> is a call that passes no status.
\<close>

definition toResponse :: "payload \<Rightarrow> nat option \<Rightarrow> IResponse" where
  "toResponse data st = \<lparr> responseData = data, statusCode = st \<rparr>"

section \<open>Effects, interactions and the state of one call\<close>

datatype debug_msg =
  VerifyingError jserr
  | ProcessingError jserr
  | Resolving APIInteractionResponse
  | TimedOutMsg string
  | AutoDeferred string
  | UnsupportedType InteractionType

datatype emitted = InteractionCreate string | ErrorEvent jserr

datatype effect =
  ConsoleDebug debug_msg
  | DebugCall debug_msg
  | JSONParse "string option"
  | SetTimeout nat
  | Emit emitted
  | Uncaught jserr

text \<open>
  The closures handed to \<open>useCallback\<close>: one that logs and resolves the promise with its
  argument (after a conversion), and one that throws.
\<close>

datatype 'r callback = ResolveWith "APIInteractionResponse \<Rightarrow> 'r" | ThrowError jserr

text \<open>
  The interaction classes (\<open>structures\<close>) are not among the sources. The fields are those
  the handlers read and write: \<open>id\<close>, \<open>responded\<close>, \<open>timeout\<close>, and the callback set by
  \<open>useCallback\<close>.
\<close>

record 'r Interaction =
  interaction_id :: string
  itype :: InteractionType
  responded :: bool
  timeout :: bool
  callback :: "'r callback option"

text \<open>
  A timer of the runtime: scheduled for a due time, fired, or cleared by
  \<open>clearTimeout\<close>.
\<close>

datatype timer = NoTimer | Scheduled nat | Fired | Cleared

datatype AbortSignal = NotAborted | Aborted jserr

record 'r call_state =
  promise :: "'r promise"
  settled_at :: "nat option"
  interaction :: "'r Interaction option"
  timer :: timer
  signal :: "AbortSignal option"
  abort_listener :: bool
  clock :: nat
  effects :: "effect list"

definition new_call :: "nat \<Rightarrow> AbortSignal option \<Rightarrow> 'r call_state" where
  "new_call t0 sig =
     \<lparr> promise = Pending, settled_at = None, interaction = None, timer = NoTimer,
       signal = sig, abort_listener = False, clock = t0, effects = [] \<rparr>"

text \<open>The outcome of a call: what its promise holds, and when it was settled.\<close>

definition outcome :: "'r call_state \<Rightarrow> 'r promise \<times> nat option" where
  "outcome st = (promise st, settled_at st)"

definition perform :: "effect \<Rightarrow> 'r call_state \<Rightarrow> 'r call_state" where
  "perform e st = st\<lparr> effects := effects st @ [e] \<rparr>"

definition resolve :: "'r \<Rightarrow> 'r call_state \<Rightarrow> 'r call_state" where
  "resolve v st =
     (case promise st of
        Pending \<Rightarrow> st\<lparr> promise := Fulfilled v, settled_at := Some (clock st) \<rparr>
      | _ \<Rightarrow> st)"

definition reject :: "jserr \<Rightarrow> 'r call_state \<Rightarrow> 'r call_state" where
  "reject e st =
     (case promise st of
        Pending \<Rightarrow> st\<lparr> promise := Rejected e, settled_at := Some (clock st) \<rparr>
      | _ \<Rightarrow> st)"

text \<open>
  The private method \<open>debug\<close>: nothing unless \<open>options.debug\<close> is truthy; then the
  configured function is called, or \<open>console.debug\<close>. The sink is taken to return.
\<close>

definition debug :: "object \<Rightarrow> debug_msg \<Rightarrow> 'r call_state \<Rightarrow> 'r call_state" where
  "debug opts msg st =
     (if truthy (property opts ''debug'')
      then (case property opts ''debug'' of
              Function f \<Rightarrow> perform (DebugCall msg) st
            | _ \<Rightarrow> perform (ConsoleDebug msg) st)
      else st)"

text \<open>Calling a callback on a response: the thrown error, if any, and the new state.\<close>

definition apply_callback ::
  "object \<Rightarrow> 'r callback option \<Rightarrow> APIInteractionResponse \<Rightarrow> 'r call_state \<Rightarrow>
   jserr option \<times> 'r call_state" where
  "apply_callback opts cb response st =
     (case cb of
        None \<Rightarrow> (Some (TypeError ''callback is not a function''), st)
      | Some (ResolveWith f) \<Rightarrow> (None, resolve (f response) (debug opts (Resolving response) st))
      | Some (ThrowError e) \<Rightarrow> (Some e, st))"

section \<open>The interaction's methods\<close>

text \<open>
  Modelled from the spec: the methods of the interaction classes (\<open>structures\<close>) and
  \<open>InteractionFactory.from\<close> (\<open>utils/Factories\<close>), none of them among the sources.
  The specification's states are read off the two flags: pending when neither is set,
  responded, timed out.
\<close>

definition useCallback :: "'r callback \<Rightarrow> 'r Interaction \<Rightarrow> 'r Interaction" where
  "useCallback cb i = i\<lparr> callback := Some cb \<rparr>"

definition isAutoComplete :: "'r Interaction \<Rightarrow> bool" where
  "isAutoComplete i = (itype i = ApplicationCommandAutocomplete)"

text \<open>
  Modelled from the spec: "resolve(responsePayload): valid only from Pending; transitions
  to Responded; fulfills the response future exactly once; a call from a non-Pending state
  is rejected (reports a DoubleResponse condition) rather than applied". The payload goes
  to the callback; when the callback throws, the error reaches the caller and the flags
  stay.
\<close>

definition respond ::
  "object \<Rightarrow> APIInteractionResponse \<Rightarrow> 'r call_state \<Rightarrow> jserr option \<times> 'r call_state" where
  "respond opts response st =
     (case interaction st of
        None \<Rightarrow> (Some (TypeError ''no interaction''), st)
      | Some i \<Rightarrow>
          (if responded i \<or> timeout i then (Some DoubleResponse, st)
           else (case apply_callback opts (callback i) response st of
                   (Some e, st') \<Rightarrow> (Some e, st')
                 | (None, st') \<Rightarrow> (None, st'\<lparr> interaction := Some (i\<lparr> responded := True \<rparr>) \<rparr>))))"

text \<open>
  Modelled from the spec: "produces a deferred-acknowledgement payload": a response of the
  deferred type, sent as any other response.
\<close>

definition deferred_ack :: APIInteractionResponse where
  "deferred_ack = \<lparr> rtype = DeferredChannelMessageWithSource, rdata = None \<rparr>"

definition deferResponse :: "object \<Rightarrow> 'r call_state \<Rightarrow> jserr option \<times> 'r call_state" where
  "deferResponse opts st = respond opts deferred_ack st"

text \<open>
  Modelled from the spec: the parser "recognizes at minimum the Ping kind (must be
  answered with a Pong acknowledgement, no state machine needed) and an open set of other
  kinds routed to the state machine". The open set is the parameter \<open>supported\<close>; a ping
  never yields an interaction.
\<close>

definition InteractionFactory_from ::
  "(InteractionType \<Rightarrow> bool) \<Rightarrow> APIInteraction \<Rightarrow> 'r Interaction option" where
  "InteractionFactory_from supported rawInteraction =
     (if raw_type rawInteraction \<noteq> Ping \<and> supported (raw_type rawInteraction)
      then Some \<lparr> interaction_id = raw_id rawInteraction, itype = raw_type rawInteraction,
                  responded = False, timeout = False, callback = None \<rparr>
      else None)"

section \<open>The collaborators of the handler\<close>

text \<open>
  What the handler calls and the sources do not hold, as parameters:
  \<open>ToRequest\<close> (it throws or returns the canonical request),
  \<open>crypto.subtle.importKey\<close> on the configured key (its promise rejects, or yields a key),
  \<open>crypto.subtle.verify\<close> on the key, the signature and \<open>timestamp + body\<close>,
  \<open>tryAndValue(() => JSON.parse(body))\<close> (\<open>None\<close> for a falsy outcome),
  the two header names of \<open>DiscordVerificationHeaders\<close>, and the interaction types the
  factory supports.
\<close>

record ('raw, 'k) env =
  ToRequest :: "'raw \<Rightarrow> jserr + IRequest"
  importKey :: "jsval \<Rightarrow> jserr + 'k"
  verify :: "'k \<Rightarrow> string \<Rightarrow> string \<Rightarrow> bool call"
  parseBody :: "string option \<Rightarrow> APIInteraction option"
  TimeStamp :: string
  Signature :: string
  supported :: "InteractionType \<Rightarrow> bool"

section \<open>The verifying handler (src/unnamed/part_001)\<close>

record handler_base =
  options :: ref

record 'k InteractionHandler = handler_base +
  rest :: jsval
  publicKey :: "'k option"
  error_listeners :: bool

text \<open>
  The constructor: \<open>Object.assign({}, defaultOptions, options)\<close>, then the check of the
  public key. No listener is registered yet.
\<close>

definition constructor_p1 ::
  "heap \<Rightarrow> object \<Rightarrow> heap \<times> (jserr + 'k InteractionHandler)" where
  "constructor_p1 hp opts =
     (let (hp1, fresh) = new_object hp;
          (hp2, this_options) = Object_assign hp1 fresh [deref hp1 defaultOptions, opts]
      in if \<not> truthy (property (deref hp2 this_options) ''publicKey'')
         then (hp2, Inl (DisciValidationError ''Public key is required''))
         else (hp2, Inr \<lparr> options = this_options,
                          rest = property (deref hp2 this_options) ''restAdapter'',
                          publicKey = None,
                          error_listeners = False \<rparr>))"

text \<open>
  \<open>verifyRequest\<close> is \<open>async\<close>: whatever is thrown inside it rejects its promise. The
  \<open>try\<close> around \<open>crypto.subtle.verify\<close> catches what that call throws, not what its
  promise rejects with.
\<close>

definition verifyRequest ::
  "('raw, 'k) env \<Rightarrow> object \<Rightarrow> 'k InteractionHandler \<Rightarrow> IRequest \<Rightarrow>
   'k InteractionHandler \<times> bool promise" where
  "verifyRequest e opts h req =
     (case (case publicKey h of
              Some k \<Rightarrow> Inr (h, k)
            | None \<Rightarrow> (case importKey e (property opts ''publicKey'') of
                         Inl err \<Rightarrow> Inl err
                       | Inr k \<Rightarrow> Inr (h\<lparr> publicKey := Some k \<rparr>, k))) of
        Inl err \<Rightarrow> (h, Rejected err)
      | Inr (h', k) \<Rightarrow>
          (let timestamp = headers req (TimeStamp e);
               signature = headers req (Signature e)
           in if falsy_str timestamp \<or> falsy_str signature \<or> falsy_str (body req)
              then (h', Fulfilled False)
              else (case (timestamp, signature, body req) of
                      (Some ts, Some sg, Some b) \<Rightarrow>
                        (case verify e k sg (ts @ b) of
                           Throws err \<Rightarrow> (h', Fulfilled False)
                         | Returns p \<Rightarrow> (h', p))
                    | _ \<Rightarrow> (h', Fulfilled False))))"

text \<open>
  \<open>verifyFn(receivedRequest)\<close>: the configured function when \<open>options.verifyRequest\<close> is
  one, the method above otherwise.
\<close>

definition verifyFn ::
  "('raw, 'k) env \<Rightarrow> object \<Rightarrow> 'k InteractionHandler \<Rightarrow> IRequest \<Rightarrow>
   'k InteractionHandler \<times> bool call" where
  "verifyFn e opts h req =
     (case property opts ''verifyRequest'' of
        Function f \<Rightarrow> (h, f req)
      | _ \<Rightarrow> (case verifyRequest e opts h req of (h', p) \<Rightarrow> (h', Returns p)))"

text \<open>The delay \<open>setTimeout\<close> makes of its second argument: a number, or 0.\<close>

definition timer_delay :: "jsval \<Rightarrow> nat" where
  "timer_delay v = (case v of Num n \<Rightarrow> n | _ \<Rightarrow> 0)"

text \<open>The function handed to \<open>setTimeout\<close> (lines 105 to 118).\<close>

definition on_timeout :: "object \<Rightarrow> IResponse call_state \<Rightarrow> IResponse call_state" where
  "on_timeout opts st =
     (case interaction st of
        None \<Rightarrow> st
      | Some i \<Rightarrow>
          (if \<not> responded i
           then (let st1 = debug opts (TimedOutMsg (interaction_id i)) st
                 in if truthy (property opts ''deferOnTimeout'') \<and> \<not> isAutoComplete i
                    then (case deferResponse opts (debug opts (AutoDeferred (interaction_id i)) st1) of
                            (None, st2) \<Rightarrow> st2
                          | (Some err, st2) \<Rightarrow> perform (Uncaught err) st2)
                    else resolve (toResponse (ErrorMessage TimedOut) (Some 504))
                           (st1\<lparr> interaction := Some (i\<lparr> timeout := True \<rparr>) \<rparr>))
           else st))"

text \<open>
  The executor of \<open>processRequest\<close>, run at once by \<open>new Promise\<close>: the state it leaves
  behind. The timer is scheduled \<open>replyTimeout\<close> after the current time.
\<close>

definition processRequest_p1 ::
  "('raw, 'k) env \<Rightarrow> object \<Rightarrow> IRequest \<Rightarrow> IResponse call_state \<Rightarrow> IResponse call_state" where
  "processRequest_p1 e opts req st0 =
     (let st1 = perform (JSONParse (body req)) st0
      in case parseBody e (body req) of
           None \<Rightarrow> reject (DisciParseError ''Failed to parse rawBody into a valid ApiInteraction'') st1
         | Some rawInteraction \<Rightarrow>
             (case InteractionFactory_from (supported e) rawInteraction of
                Some i \<Rightarrow>
                  perform (Emit (InteractionCreate (interaction_id i)))
                    (perform (SetTimeout (timer_delay (property opts ''replyTimeout'')))
                       (st1\<lparr> interaction :=
                                Some (useCallback (ResolveWith (\<lambda>response. toResponse (Json response) None)) i),
                             timer := Scheduled (clock st1 + timer_delay (property opts ''replyTimeout'')) \<rparr>))
              | None \<Rightarrow>
                  (if raw_type rawInteraction = Ping
                   then resolve (toResponse (Json \<lparr> rtype = Pong, rdata = None \<rparr>) None) st1
                   else resolve (toResponse (ErrorMessage NotSupported) (Some 500))
                          (debug opts (UnsupportedType (raw_type rawInteraction)) st1))))"

section \<open>The handler with an abort signal (src/unnamed/part_002)\<close>

record InteractionHandler_p2 = handler_base +
  api :: Rest

text \<open>
  The constructor of \<open>Rest\<close>; \<open>URLS.DiscordApi\<close> is a parameter. Reading a property of
  \<open>undefined\<close> or \<open>null\<close> throws, reading one of another primitive gives \<open>undefined\<close>.
\<close>

definition Rest_of :: "string \<Rightarrow> RESTClientOptions \<Rightarrow> Rest" where
  "Rest_of DiscordApi ro =
     \<lparr> authPrefix = (case authPrefix_opt ro of
                       None \<Rightarrow> ''Bot''
                     | Some p \<Rightarrow> if p = [] then ''Bot'' else p),
       authToken = (case token ro of None \<Rightarrow> [] | Some t \<Rightarrow> t),
       rootUrl = (case rootUrl_opt ro of
                    None \<Rightarrow> DiscordApi
                  | Some u \<Rightarrow>
                      if u = [] then DiscordApi
                      else if last u = CHR ''/'' then butlast u else u) \<rparr>"

definition Rest_new :: "string \<Rightarrow> jsval \<Rightarrow> jserr + Rest" where
  "Rest_new DiscordApi opts =
     (case opts of
        Undefined \<Rightarrow> Inl (TypeError ''Cannot read properties of undefined'')
      | Null \<Rightarrow> Inl (TypeError ''Cannot read properties of null'')
      | RestOptions ro \<Rightarrow> Inr (Rest_of DiscordApi ro)
      | _ \<Rightarrow> Inr (Rest_of DiscordApi \<lparr> token = None, authPrefix_opt = None, rootUrl_opt = None \<rparr>))"

text \<open>
  The constructor: \<open>Object.assign(defaultOptions, options)\<close>. The target is the shared
  object itself, and \<open>this.options\<close> is a reference to it.
\<close>

definition constructor_p2 ::
  "string \<Rightarrow> heap \<Rightarrow> object \<Rightarrow> heap \<times> (jserr + InteractionHandler_p2)" where
  "constructor_p2 DiscordApi hp opts =
     (let (hp1, this_options) = Object_assign hp defaultOptions [opts]
      in case Rest_new DiscordApi (property (deref hp1 this_options) ''rest'') of
           Inl err \<Rightarrow> (hp1, Inl err)
         | Inr r \<Rightarrow> (hp1, Inr \<lparr> options = this_options, api = r \<rparr>))"

text \<open>The \<open>body\<close> argument: a string still to be parsed, or an object.\<close>

datatype body_arg = StringBody string | RecordBody APIInteraction

text \<open>
  \<open>tryAndValue(() => typeof body === "string" ? JSON.parse(body) : body)\<close>.
\<close>

definition parse_body_arg :: "('raw, 'k) env \<Rightarrow> body_arg \<Rightarrow> APIInteraction option" where
  "parse_body_arg e b = (case b of StringBody s \<Rightarrow> parseBody e (Some s) | RecordBody r \<Rightarrow> Some r)"

text \<open>The listener registered for \<open>abort\<close> (lines 112 to 117).\<close>

definition on_abort ::
  "APIInteractionResponse call_state \<Rightarrow> APIInteractionResponse call_state" where
  "on_abort st =
     (let st1 = (case interaction st of
                   None \<Rightarrow> st
                 | Some i \<Rightarrow>
                     st\<lparr> interaction :=
                           Some (useCallback (ThrowError (Error ''Interaction timed out (via abort)'')) i) \<rparr>)
      in case signal st1 of
           Some (Aborted rsn) \<Rightarrow> reject rsn st1
         | _ \<Rightarrow> st1)"

definition processRequest_p2 ::
  "('raw, 'k) env \<Rightarrow> object \<Rightarrow> body_arg \<Rightarrow> APIInteractionResponse call_state \<Rightarrow>
   APIInteractionResponse call_state" where
  "processRequest_p2 e opts b st0 =
     (case signal st0 of
        Some (Aborted rsn) \<Rightarrow> reject rsn st0
      | _ \<Rightarrow>
          (let st1 = (case b of
                        StringBody s \<Rightarrow> perform (JSONParse (Some s)) st0
                      | RecordBody r \<Rightarrow> st0)
           in case parse_body_arg e b of
                None \<Rightarrow>
                  reject (StringReason
                    ''ParseError: Failed to parse received interaction to a valid interaction'') st1
              | Some raw \<Rightarrow>
                  (case InteractionFactory_from (supported e) raw of
                     Some i \<Rightarrow>
                       perform (Emit (InteractionCreate (interaction_id i)))
                         (st1\<lparr> interaction := Some (useCallback (ResolveWith (\<lambda>response. response)) i),
                               abort_listener := (signal st1 \<noteq> None) \<rparr>)
                   | None \<Rightarrow>
                       (if raw_type raw = Ping
                        then resolve \<lparr> rtype = Pong, rdata = None \<rparr> st1
                        else reject (UnsupportedInteraction (raw_type raw)) st1))))"

section \<open>What happens after the executor has run\<close>

text \<open>
  The subscriber answers the interaction, the runtime fires the timer, the signal is
  aborted. Every event carries the time at which it happens. The runtime fires a timer
  once, at or after its due time; a signal aborts once.
\<close>

datatype event = Respond APIInteractionResponse | TimerFires | Abort jserr

definition step_p1 ::
  "object \<Rightarrow> nat \<times> event \<Rightarrow> IResponse call_state \<Rightarrow> jserr option \<times> IResponse call_state" where
  "step_p1 opts te st =
     (let st1 = st\<lparr> clock := max (clock st) (fst te) \<rparr>
      in case snd te of
           Respond response \<Rightarrow> respond opts response st1
         | TimerFires \<Rightarrow>
             (case timer st1 of
                Scheduled due \<Rightarrow>
                  (if due \<le> clock st1 then (None, on_timeout opts (st1\<lparr> timer := Fired \<rparr>))
                   else (None, st1))
              | _ \<Rightarrow> (None, st1))
         | Abort rsn \<Rightarrow> (None, st1))"

definition step_p2 ::
  "object \<Rightarrow> nat \<times> event \<Rightarrow> APIInteractionResponse call_state \<Rightarrow>
   jserr option \<times> APIInteractionResponse call_state" where
  "step_p2 opts te st =
     (let st1 = st\<lparr> clock := max (clock st) (fst te) \<rparr>
      in case snd te of
           Respond response \<Rightarrow> respond opts response st1
         | TimerFires \<Rightarrow> (None, st1)
         | Abort rsn \<Rightarrow>
             (case signal st1 of
                Some NotAborted \<Rightarrow>
                  (let st2 = st1\<lparr> signal := Some (Aborted rsn) \<rparr>
                   in (None, if abort_listener st2 then on_abort st2 else st2))
              | _ \<Rightarrow> (None, st1)))"

definition run_p1 ::
  "object \<Rightarrow> (nat \<times> event) list \<Rightarrow> IResponse call_state \<Rightarrow> IResponse call_state" where
  "run_p1 opts sched st = fold (\<lambda>te s. snd (step_p1 opts te s)) sched st"

definition run_p2 ::
  "object \<Rightarrow> (nat \<times> event) list \<Rightarrow> APIInteractionResponse call_state \<Rightarrow>
   APIInteractionResponse call_state" where
  "run_p2 opts sched st = fold (\<lambda>te s. snd (step_p2 opts te s)) sched st"

section \<open>\<open>handleRequest\<close> (src/unnamed/part_001, lines 57 to 81)\<close>

text \<open>
  The result is the handler (its key cache may have been filled), the promise that
  \<open>handleRequest\<close> returns, and the effects. \<open>sched\<close> is what happens after the executor
  of \<open>processRequest\<close> has run; \<open>t0\<close> is the time of the call. \<open>handleRequest\<close> is
  \<open>async\<close>: what is thrown outside a \<open>try\<close> rejects its promise. Emitting \<open>error\<close> with
  no listener registered throws the error.
\<close>

definition handleRequest ::
  "('raw, 'k) env \<Rightarrow> heap \<Rightarrow> 'k InteractionHandler \<Rightarrow> 'raw \<Rightarrow> (nat \<times> event) list \<Rightarrow> nat \<Rightarrow>
   'k InteractionHandler \<times> IResponse promise \<times> effect list" where
  "handleRequest e hp h req sched t0 =
     (case ToRequest e req of
        Inl err \<Rightarrow> (h, Rejected err, [])
      | Inr receivedRequest \<Rightarrow>
          (let opts = deref hp (options h)
           in case verifyFn e opts h receivedRequest of
                (h', Throws err) \<Rightarrow> (h', Rejected err, [])
              | (h', Returns Pending) \<Rightarrow> (h', Pending, [])
              | (h', Returns (Rejected vErr)) \<Rightarrow>
                  (h', Fulfilled (toResponse (ErrorMessage Unauthorized) (Some 400)),
                   effects (debug opts (VerifyingError vErr) (new_call t0 None :: IResponse call_state)))
              | (h', Returns (Fulfilled requestVerified)) \<Rightarrow>
                  (if \<not> requestVerified
                   then (h', Fulfilled (toResponse (ErrorMessage Unauthorized) (Some 400)), [])
                   else (let st = run_p1 opts sched
                                    (processRequest_p1 e opts receivedRequest (new_call t0 None))
                         in case promise st of
                              Pending \<Rightarrow> (h', Pending, effects st)
                            | Fulfilled r \<Rightarrow> (h', Fulfilled r, effects st)
                            | Rejected pErr \<Rightarrow>
                                (if error_listeners h'
                                 then (h', Fulfilled (toResponse (ErrorMessage InternalError) (Some 500)),
                                       effects (debug opts (ProcessingError pErr)
                                                  (perform (Emit (ErrorEvent pErr)) st)))
                                 else (h', Rejected pErr, effects (perform (Emit (ErrorEvent pErr)) st)))))))"

section \<open>The response named for an unanswered interaction\<close>



section \<open>A concrete configuration\<close>

text \<open>
  One instance of the collaborators and of the option objects, at which the theorems below
  are exercised. The raw request is an optional canonical request: \<open>ToRequest\<close> fails on
  \<open>None\<close>. The bodies stand for the JSON of a ping, a command and an autocomplete.
\<close>

definition demo_supported :: "InteractionType \<Rightarrow> bool" where
  "demo_supported t =
     (case t of
        ApplicationCommand \<Rightarrow> True
      | MessageComponent \<Rightarrow> True
      | ApplicationCommandAutocomplete \<Rightarrow> True
      | ModalSubmit \<Rightarrow> True
      | _ \<Rightarrow> False)"

definition demo_parse :: "string option \<Rightarrow> APIInteraction option" where
  "demo_parse b =
     (if b = Some ''{type:1}'' then Some \<lparr> raw_id = ''i1'', raw_type = Ping \<rparr>
      else if b = Some ''{type:2}'' then Some \<lparr> raw_id = ''i2'', raw_type = ApplicationCommand \<rparr>
      else if b = Some ''{type:4}''
        then Some \<lparr> raw_id = ''i4'', raw_type = ApplicationCommandAutocomplete \<rparr>
      else None)"

definition demo_env :: "(IRequest option, nat) env" where
  "demo_env =
     \<lparr> ToRequest = (\<lambda>raw. case raw of None \<Rightarrow> Inl (Foreign ''MalformedRequest'') | Some r \<Rightarrow> Inr r),
       importKey = (\<lambda>v. Inr 7),
       verify = (\<lambda>k sg msg. Returns (Fulfilled (sg = ''good''))),
       parseBody = demo_parse,
       TimeStamp = ''x-signature-timestamp'',
       Signature = ''x-signature-ed25519'',
       supported = demo_supported \<rparr>"

definition demo_defaults :: object where
  "demo_defaults =
     [''replyTimeout'' \<mapsto> Num 3000,
      ''deferOnTimeout'' \<mapsto> Bool False,
      ''rest'' \<mapsto> RestOptions \<lparr> token = None, authPrefix_opt = None, rootUrl_opt = None \<rparr>]"

definition demo_key :: object where
  "demo_key = [''publicKey'' \<mapsto> Str ''ab'']"

definition demo_handler :: "nat InteractionHandler" where
  "demo_handler = \<lparr> options = 1, rest = Undefined, publicKey = None, error_listeners = False \<rparr>"

definition unsigned_ping :: IRequest where
  "unsigned_ping = \<lparr> headers = Map.empty, body = Some ''{type:1}'' \<rparr>"

definition accept_all :: jsval where
  "accept_all = Function (\<lambda>r. Returns (Fulfilled True))"

definition demo_api :: string where
  "demo_api = ''https://discord.com/api/v10''"

definition command_request :: IRequest where
  "command_request =
     \<lparr> headers = [''x-signature-timestamp'' \<mapsto> ''1700000000'', ''x-signature-ed25519'' \<mapsto> ''good''],
       body = Some ''{type:2}'' \<rparr>"

definition answer :: APIInteractionResponse where
  "answer = \<lparr> rtype = ChannelMessageWithSource, rdata = Some ''hello'' \<rparr>"

definition late_answer :: APIInteractionResponse where
  "late_answer = \<lparr> rtype = ChannelMessageWithSource, rdata = Some ''too late'' \<rparr>"

definition demo_command :: "'r Interaction" where
  "demo_command = \<lparr> interaction_id = ''i2'', itype = ApplicationCommand, responded = False,
                     timeout = False, callback = None \<rparr>"




section \<open>Theorems\<close>

subsection \<open>Construction\<close>

lemma constructor_p1_frame:
  "r < length hp \<Longrightarrow>
   deref (fst (constructor_p1 hp opts :: heap \<times> (jserr + 'k InteractionHandler))) r = deref hp r"
  by (simp add: constructor_p1_def new_object_def Object_assign_def deref_def Let_def nth_append)

lemma constructor_p1_demo:
  "constructor_p1 [demo_defaults] demo_key =
     ([demo_defaults, (Map.empty ++ demo_defaults) ++ demo_key], Inr demo_handler)"
  by (simp add: constructor_p1_def new_object_def Object_assign_def deref_def Let_def
      defaultOptions_def property_def demo_key_def demo_handler_def demo_defaults_def)

text \<open>
  C10. The constructor of the verifying handler merges the defaults and the options into
  a fresh object; when the merged object has no truthy \<open>publicKey\<close> it throws the
  validation error, and a handler it returns reads a truthy \<open>publicKey\<close> from its options.
\<close>

theorem constructor_p1_requires_publicKey:
  "(\<not> truthy (property (deref hp defaultOptions ++ opts) ''publicKey'') \<longrightarrow>
      snd (constructor_p1 hp opts :: heap \<times> (jserr + 'k InteractionHandler)) =
        Inl (DisciValidationError ''Public key is required''))
   \<and> (\<forall>h :: 'k InteractionHandler.
         snd (constructor_p1 hp opts) = Inr h \<longrightarrow>
           truthy (property (deref (fst (constructor_p1 hp opts ::
                     heap \<times> (jserr + 'k InteractionHandler))) (options h)) ''publicKey'')
           \<and> truthy (property (deref hp defaultOptions ++ opts) ''publicKey''))"
  by (simp add: constructor_p1_def new_object_def Object_assign_def deref_def Let_def nth_append
      defaultOptions_def split: if_splits)

theorem constructor_p1_requires_publicKey_witness:
  "\<not> truthy (property (deref [demo_defaults] defaultOptions ++ Map.empty) ''publicKey'')
   \<and> snd (constructor_p1 [demo_defaults] Map.empty :: heap \<times> (jserr + nat InteractionHandler)) =
        Inl (DisciValidationError ''Public key is required'')
   \<and> snd (constructor_p1 [demo_defaults] demo_key) = Inr demo_handler
   \<and> truthy (property (deref (fst (constructor_p1 [demo_defaults] demo_key ::
                heap \<times> (jserr + nat InteractionHandler))) (options demo_handler)) ''publicKey'')"
proof -
  have none: "\<not> truthy (property (deref [demo_defaults] defaultOptions ++ Map.empty) ''publicKey'')"
    by (simp add: deref_def defaultOptions_def demo_defaults_def property_def)
  have made: "snd (constructor_p1 [demo_defaults] demo_key) = Inr demo_handler"
    by (simp add: constructor_p1_demo)
  show ?thesis
    using none made
      constructor_p1_requires_publicKey [of "[demo_defaults]" Map.empty, where ?'k = nat]
      constructor_p1_requires_publicKey [of "[demo_defaults]" demo_key, where ?'k = nat]
    by blast
qed

lemma length_constructor_p2: "length (fst (constructor_p2 u hp opts)) = length hp"
  by (simp add: constructor_p2_def Object_assign_def split: sum.splits)

text \<open>
  C8 (the code departs from it). The constructor of part_002 assigns the options into the
  shared \<open>defaultOptions\<close> object itself and keeps a reference to it: after a
  construction the defaults hold the options given, for every handler and every later
  construction. The witness builds two handlers: the second, built with no options, reads
  the reply timeout the first was built with.
\<close>

theorem constructor_p2_writes_defaultOptions:
  assumes "hp \<noteq> []"
  shows "deref (fst (constructor_p2 u hp opts)) defaultOptions = deref hp defaultOptions ++ opts
         \<and> (\<forall>h. snd (constructor_p2 u hp opts) = Inr h \<longrightarrow> options h = defaultOptions)"
  using assms
  by (auto simp: constructor_p2_def Object_assign_def deref_def defaultOptions_def
      split: sum.splits)

theorem constructor_p2_writes_defaultOptions_witness:
  "[demo_defaults] \<noteq> []
   \<and> property demo_defaults ''replyTimeout'' = Num 3000
   \<and> property (deref (fst (constructor_p2 demo_api
         (fst (constructor_p2 demo_api [demo_defaults] [''replyTimeout'' \<mapsto> Num 1])) Map.empty))
       defaultOptions) ''replyTimeout'' = Num 1"
proof -
  have ne: "[demo_defaults] \<noteq> []" by simp
  have first: "deref (fst (constructor_p2 demo_api [demo_defaults] [''replyTimeout'' \<mapsto> Num 1]))
                 defaultOptions = demo_defaults ++ [''replyTimeout'' \<mapsto> Num 1]"
    using constructor_p2_writes_defaultOptions [OF ne, of demo_api "[''replyTimeout'' \<mapsto> Num 1]"]
    by (simp add: deref_def defaultOptions_def)
  have ne2: "fst (constructor_p2 demo_api [demo_defaults] [''replyTimeout'' \<mapsto> Num 1]) \<noteq> []"
    using length_constructor_p2 [of demo_api "[demo_defaults]" "[''replyTimeout'' \<mapsto> Num 1]"]
    by auto
  have second: "deref (fst (constructor_p2 demo_api
         (fst (constructor_p2 demo_api [demo_defaults] [''replyTimeout'' \<mapsto> Num 1])) Map.empty))
       defaultOptions = (demo_defaults ++ [''replyTimeout'' \<mapsto> Num 1]) ++ Map.empty"
    using constructor_p2_writes_defaultOptions [OF ne2, of demo_api Map.empty] first by simp
  show ?thesis
    using ne second by (simp add: property_def demo_defaults_def)
qed

subsection \<open>Verification and adaptation in \<open>handleRequest\<close>\<close>

lemma effects_debug_new_call:
  "set (effects (debug opts msg (new_call t0 sig))) \<subseteq> {ConsoleDebug msg, DebugCall msg}"
  by (auto simp: debug_def new_call_def perform_def split: jsval.splits)

lemma verifyRequest_missing:
  assumes "falsy_str (headers r (TimeStamp e)) \<or> falsy_str (headers r (Signature e))
           \<or> falsy_str (body r)"
  shows "snd (verifyRequest e opts h r) = Fulfilled False
         \<or> (\<exists>err. snd (verifyRequest e opts h r) = Rejected err)"
  using assms by (auto simp: verifyRequest_def Let_def split: option.splits sum.splits)

lemma verifyFn_default:
  assumes "\<not> is_function (property opts ''verifyRequest'')"
  shows "snd (verifyFn e opts h r) = Returns (snd (verifyRequest e opts h r))"
  using assms
  by (cases "property opts ''verifyRequest''") (auto simp: verifyFn_def split: prod.splits)

lemma handleRequest_rejected_verification:
  assumes "ToRequest e req = Inr r"
    and "snd (verifyFn e (deref hp (options h)) h r) = Returns (Rejected vErr)"
  shows "\<exists>h' effs. handleRequest e hp h req sched t0 =
            (h', Fulfilled (toResponse (ErrorMessage Unauthorized) (Some 400)), effs)
          \<and> (\<forall>b. JSONParse b \<notin> set effs)"
proof -
  obtain h' where v: "verifyFn e (deref hp (options h)) h r = (h', Returns (Rejected vErr))"
    using assms(2) by (cases "verifyFn e (deref hp (options h)) h r") auto
  have "\<forall>b. JSONParse b \<notin> set (effects (debug (deref hp (options h)) (VerifyingError vErr)
          (new_call t0 None :: IResponse call_state)))"
    using effects_debug_new_call [of "deref hp (options h)" "VerifyingError vErr" t0 None]
    by auto
  then show ?thesis
    using assms(1) v by (simp add: handleRequest_def Let_def)
qed

lemma handleRequest_false_verification:
  assumes "ToRequest e req = Inr r"
    and "snd (verifyFn e (deref hp (options h)) h r) = Returns (Fulfilled False)"
  shows "\<exists>h' effs. handleRequest e hp h req sched t0 =
            (h', Fulfilled (toResponse (ErrorMessage Unauthorized) (Some 400)), effs)
          \<and> (\<forall>b. JSONParse b \<notin> set effs)"
proof -
  obtain h' where v: "verifyFn e (deref hp (options h)) h r = (h', Returns (Fulfilled False))"
    using assms(2) by (cases "verifyFn e (deref hp (options h)) h r") auto
  then show ?thesis
    using assms(1) by (simp add: handleRequest_def Let_def)
qed

text \<open>
  C1, as the code has it. For a request that \<open>ToRequest\<close> adapted: when the promise of the
  verification function rejects or yields false, and, when no \<open>verifyRequest\<close> function
  is configured, whenever the timestamp header, the signature header or the body is
  missing or empty, \<open>handleRequest\<close> fulfils with \<open>toResponse(Unauthorized, 400)\<close>; its
  promise does not reject and \<open>JSON.parse\<close> is not called.
\<close>

theorem handleRequest_unauthorized:
  assumes "ToRequest e req = Inr r"
    and "snd (verifyFn e (deref hp (options h)) h r) = Returns (Rejected vErr)
         \<or> snd (verifyFn e (deref hp (options h)) h r) = Returns (Fulfilled False)
         \<or> (\<not> is_function (property (deref hp (options h)) ''verifyRequest'')
             \<and> (falsy_str (headers r (TimeStamp e)) \<or> falsy_str (headers r (Signature e))
                  \<or> falsy_str (body r)))"
  shows "\<exists>h' effs. handleRequest e hp h req sched t0 =
            (h', Fulfilled (toResponse (ErrorMessage Unauthorized) (Some 400)), effs)
          \<and> (\<forall>b. JSONParse b \<notin> set effs)"
proof -
  consider (rej) err where "snd (verifyFn e (deref hp (options h)) h r) = Returns (Rejected err)"
    | (fls) "snd (verifyFn e (deref hp (options h)) h r) = Returns (Fulfilled False)"
    using assms(2) verifyFn_default [of "deref hp (options h)" e h r]
      verifyRequest_missing [of r e "deref hp (options h)" h]
    by auto
  then show ?thesis
  proof cases
    case rej
    then show ?thesis using handleRequest_rejected_verification [OF assms(1)] by blast
  next
    case fls
    then show ?thesis using handleRequest_false_verification [OF assms(1)] by blast
  qed
qed

theorem handleRequest_unauthorized_witness:
  "ToRequest demo_env (Some unsigned_ping) = Inr unsigned_ping
   \<and> \<not> is_function (property (deref [demo_defaults, demo_defaults ++ demo_key] (options demo_handler))
          ''verifyRequest'')
   \<and> falsy_str (headers unsigned_ping (Signature demo_env))
   \<and> (\<exists>h' effs. handleRequest demo_env [demo_defaults, demo_defaults ++ demo_key] demo_handler
          (Some unsigned_ping) [] 0 =
            (h', Fulfilled (toResponse (ErrorMessage Unauthorized) (Some 400)), effs)
          \<and> (\<forall>b. JSONParse b \<notin> set effs))"
proof -
  have a: "ToRequest demo_env (Some unsigned_ping) = Inr unsigned_ping"
    by (simp add: demo_env_def)
  have b: "\<not> is_function (property (deref [demo_defaults, demo_defaults ++ demo_key]
             (options demo_handler)) ''verifyRequest'')"
    by (simp add: deref_def demo_handler_def property_def demo_defaults_def demo_key_def)
  have c: "falsy_str (headers unsigned_ping (Signature demo_env))"
    by (simp add: falsy_str_def unsigned_ping_def)
  show ?thesis
    using a b c
      handleRequest_unauthorized [OF a, of "[demo_defaults, demo_defaults ++ demo_key]"
        demo_handler "Foreign []" "[]" 0]
    by blast
qed

text \<open>
  The statement of C1 fails for a configured verification function: one that accepts
  every request lets a request without a signature header through to
  \<open>processRequest\<close>, which parses the body and answers the ping.
\<close>

theorem handleRequest_unsigned_accepted_counterexample:
  "falsy_str (headers unsigned_ping (Signature demo_env))
   \<and> snd (handleRequest demo_env
            [demo_defaults, demo_defaults ++ demo_key ++ [''verifyRequest'' \<mapsto> accept_all]]
            demo_handler (Some unsigned_ping) [] 0)
       = (Fulfilled (toResponse (Json \<lparr> rtype = Pong, rdata = None \<rparr>) None),
          [JSONParse (Some ''{type:1}'')])"
  by (simp add: handleRequest_def demo_env_def unsigned_ping_def falsy_str_def deref_def
      demo_handler_def verifyFn_def property_def accept_all_def run_p1_def processRequest_p1_def
      new_call_def perform_def demo_parse_def InteractionFactory_from_def resolve_def Let_def)

text \<open>
  C7 (the code departs from it). \<open>ToRequest\<close> is called outside every \<open>try\<close>: when it
  throws, the promise of \<open>handleRequest\<close> rejects with what it threw, and no response
  is produced.
\<close>

theorem handleRequest_rejects_when_ToRequest_throws:
  assumes "ToRequest e req = Inl err"
  shows "handleRequest e hp h req sched t0 = (h, Rejected err, [])"
  using assms by (simp add: handleRequest_def)

theorem handleRequest_rejects_when_ToRequest_throws_witness:
  "ToRequest demo_env None = Inl (Foreign ''MalformedRequest'')
   \<and> handleRequest demo_env [demo_defaults, demo_defaults ++ demo_key] demo_handler None [] 0 =
       (demo_handler, Rejected (Foreign ''MalformedRequest''), [])"
proof -
  have a: "ToRequest demo_env None = Inl (Foreign ''MalformedRequest'')"
    by (simp add: demo_env_def)
  show ?thesis
    using a handleRequest_rejects_when_ToRequest_throws [OF a] by simp
qed

subsection \<open>The state of a call: what each step preserves\<close>

lemma debug_fields [simp]:
  "promise (debug opts msg st) = promise st"
  "settled_at (debug opts msg st) = settled_at st"
  "interaction (debug opts msg st) = interaction st"
  "timer (debug opts msg st) = timer st"
  "signal (debug opts msg st) = signal st"
  "abort_listener (debug opts msg st) = abort_listener st"
  "clock (debug opts msg st) = clock st"
  by (simp_all add: debug_def perform_def split: jsval.splits)

lemma perform_fields [simp]:
  "promise (perform ef st) = promise st"
  "settled_at (perform ef st) = settled_at st"
  "interaction (perform ef st) = interaction st"
  "timer (perform ef st) = timer st"
  "signal (perform ef st) = signal st"
  "abort_listener (perform ef st) = abort_listener st"
  "clock (perform ef st) = clock st"
  by (simp_all add: perform_def)

lemma resolve_settled: "promise st \<noteq> Pending \<Longrightarrow> resolve v st = st"
  by (cases "promise st") (simp_all add: resolve_def)

lemma reject_settled: "promise st \<noteq> Pending \<Longrightarrow> reject err st = st"
  by (cases "promise st") (simp_all add: reject_def)

lemma resolve_fields [simp]:
  "interaction (resolve v st) = interaction st"
  "timer (resolve v st) = timer st"
  "signal (resolve v st) = signal st"
  "abort_listener (resolve v st) = abort_listener st"
  "clock (resolve v st) = clock st"
  by (simp_all add: resolve_def split: promise.splits)

lemma reject_fields [simp]:
  "interaction (reject err st) = interaction st"
  "timer (reject err st) = timer st"
  "signal (reject err st) = signal st"
  "abort_listener (reject err st) = abort_listener st"
  "clock (reject err st) = clock st"
  by (simp_all add: reject_def split: promise.splits)

lemma resolve_pending:
  "promise st = Pending \<Longrightarrow>
   promise (resolve v st) = Fulfilled v \<and> settled_at (resolve v st) = Some (clock st)"
  by (simp add: resolve_def)

lemma reject_pending:
  "promise st = Pending \<Longrightarrow>
   promise (reject err st) = Rejected err \<and> settled_at (reject err st) = Some (clock st)"
  by (simp add: reject_def)

lemma outcome_simps [simp]:
  "outcome (debug opts msg st) = outcome st"
  "outcome (perform ef st) = outcome st"
  "outcome (st\<lparr> clock := c \<rparr>) = outcome st"
  "outcome (st\<lparr> timer := tm \<rparr>) = outcome st"
  "outcome (st\<lparr> interaction := i \<rparr>) = outcome st"
  "outcome (st\<lparr> signal := sg \<rparr>) = outcome st"
  by (simp_all add: outcome_def)

lemma outcome_resolve_settled: "promise st \<noteq> Pending \<Longrightarrow> outcome (resolve v st) = outcome st"
  by (simp add: resolve_settled)

lemma outcome_reject_settled: "promise st \<noteq> Pending \<Longrightarrow> outcome (reject err st) = outcome st"
  by (simp add: reject_settled)

lemma apply_callback_settled:
  "promise st \<noteq> Pending \<Longrightarrow> outcome (snd (apply_callback opts cb r st)) = outcome st"
  by (auto simp: apply_callback_def outcome_resolve_settled split: option.splits callback.splits)

lemma respond_settled:
  assumes "promise st \<noteq> Pending"
  shows "outcome (snd (respond opts r st)) = outcome st"
proof (cases "interaction st")
  case None
  then show ?thesis by (simp add: respond_def)
next
  case (Some i)
  obtain err st' where ac: "apply_callback opts (callback i) r st = (err, st')"
    by (cases "apply_callback opts (callback i) r st") auto
  have "outcome st' = outcome st"
    using apply_callback_settled [OF assms, of opts "callback i" r] ac by simp
  then show ?thesis
    using Some ac by (cases err) (simp_all add: respond_def)
qed

lemma on_timeout_settled:
  assumes "promise st \<noteq> Pending"
  shows "outcome (on_timeout opts st) = outcome st"
proof (cases "interaction st")
  case None
  then show ?thesis by (simp add: on_timeout_def)
next
  case (Some i)
  let ?st2 = "debug opts (AutoDeferred (interaction_id i)) (debug opts (TimedOutMsg (interaction_id i)) st)"
  obtain err st' where d: "deferResponse opts ?st2 = (err, st')"
    by (cases "deferResponse opts ?st2") auto
  have "promise ?st2 \<noteq> Pending" using assms by simp
  then have "outcome (snd (deferResponse opts ?st2)) = outcome ?st2"
    unfolding deferResponse_def by (rule respond_settled)
  then have o: "outcome st' = outcome st" using d by simp
  show ?thesis
    using Some d o assms
    by (cases err) (simp_all add: on_timeout_def Let_def outcome_resolve_settled)
qed

lemma on_abort_settled:
  "promise st \<noteq> Pending \<Longrightarrow> outcome (on_abort st) = outcome st"
  by (auto simp: on_abort_def Let_def outcome_reject_settled split: option.splits AbortSignal.splits)

lemma step_p1_settled:
  "promise st \<noteq> Pending \<Longrightarrow> outcome (snd (step_p1 opts te st)) = outcome st"
  using respond_settled[of "st\<lparr>clock := max (clock st) (fst te)\<rparr>" opts]
    on_timeout_settled[of "st\<lparr>clock := max (clock st) (fst te), timer := Fired\<rparr>" opts]
  by (auto simp: step_p1_def Let_def split: event.splits timer.splits)

lemma step_p2_settled:
  "promise st \<noteq> Pending \<Longrightarrow> outcome (snd (step_p2 opts te st)) = outcome st"
  using respond_settled[of "st\<lparr>clock := max (clock st) (fst te)\<rparr>" opts]
    on_abort_settled[of "st\<lparr>clock := max (clock st) (fst te), signal := Some (Aborted _)\<rparr>"]
  by (auto simp: step_p2_def Let_def split: event.splits option.splits AbortSignal.splits)

lemma run_p1_settled:
  "promise st \<noteq> Pending \<Longrightarrow> outcome (run_p1 opts sched st) = outcome st"
proof (induction sched arbitrary: st)
  case Nil
  then show ?case by (simp add: run_p1_def)
next
  case (Cons te sched)
  have o: "outcome (snd (step_p1 opts te st)) = outcome st"
    using Cons.prems by (rule step_p1_settled)
  then have "promise (snd (step_p1 opts te st)) \<noteq> Pending"
    using Cons.prems by (simp add: outcome_def)
  then have "outcome (run_p1 opts sched (snd (step_p1 opts te st))) = outcome (snd (step_p1 opts te st))"
    by (rule Cons.IH)
  then show ?case using o by (simp add: run_p1_def)
qed

lemma run_p2_settled:
  "promise st \<noteq> Pending \<Longrightarrow> outcome (run_p2 opts sched st) = outcome st"
proof (induction sched arbitrary: st)
  case Nil
  then show ?case by (simp add: run_p2_def)
next
  case (Cons te sched)
  have o: "outcome (snd (step_p2 opts te st)) = outcome st"
    using Cons.prems by (rule step_p2_settled)
  then have "promise (snd (step_p2 opts te st)) \<noteq> Pending"
    using Cons.prems by (simp add: outcome_def)
  then have "outcome (run_p2 opts sched (snd (step_p2 opts te st))) = outcome (snd (step_p2 opts te st))"
    by (rule Cons.IH)
  then show ?case using o by (simp add: run_p2_def)
qed

lemma apply_callback_fields [simp]:
  "timer (snd (apply_callback opts cb r st)) = timer st"
  "signal (snd (apply_callback opts cb r st)) = signal st"
  "abort_listener (snd (apply_callback opts cb r st)) = abort_listener st"
  "clock (snd (apply_callback opts cb r st)) = clock st"
  "interaction (snd (apply_callback opts cb r st)) = interaction st"
  by (simp_all add: apply_callback_def split: option.splits callback.splits)

lemma respond_None:
  "interaction st = None \<Longrightarrow> respond opts r st = (Some (TypeError ''no interaction''), st)"
  by (simp add: respond_def)

lemma respond_done:
  "interaction st = Some i \<Longrightarrow> responded i \<or> timeout i \<Longrightarrow>
   respond opts r st = (Some DoubleResponse, st)"
  by (simp add: respond_def)

lemma respond_no_callback:
  "interaction st = Some i \<Longrightarrow> \<not> responded i \<Longrightarrow> \<not> timeout i \<Longrightarrow> callback i = None \<Longrightarrow>
   respond opts r st = (Some (TypeError ''callback is not a function''), st)"
  by (simp add: respond_def apply_callback_def)

lemma respond_resolves:
  "interaction st = Some i \<Longrightarrow> \<not> responded i \<Longrightarrow> \<not> timeout i \<Longrightarrow>
   callback i = Some (ResolveWith f) \<Longrightarrow>
   respond opts r st =
     (None, (resolve (f r) (debug opts (Resolving r) st))\<lparr> interaction := Some (i\<lparr> responded := True \<rparr>) \<rparr>)"
  by (simp add: respond_def apply_callback_def)

lemma respond_throws:
  "interaction st = Some i \<Longrightarrow> \<not> responded i \<Longrightarrow> \<not> timeout i \<Longrightarrow>
   callback i = Some (ThrowError err) \<Longrightarrow>
   respond opts r st = (Some err, st)"
  by (simp add: respond_def apply_callback_def)

lemma respond_cases:
  obtains (unchanged) err where "respond opts r st = (Some err, st)"
  | (resolved) i f where "interaction st = Some i" "\<not> responded i" "\<not> timeout i"
      "callback i = Some (ResolveWith f)"
      "respond opts r st =
        (None, (resolve (f r) (debug opts (Resolving r) st))\<lparr> interaction := Some (i\<lparr> responded := True \<rparr>) \<rparr>)"
proof (cases "interaction st")
  case None
  then show ?thesis using unchanged respond_None by blast
next
  case (Some i)
  note i = this
  show ?thesis
  proof (cases "responded i \<or> timeout i")
    case True
    then show ?thesis using unchanged respond_done [OF i] by blast
  next
    case False
    then have nr: "\<not> responded i" and nt: "\<not> timeout i" by simp_all
    show ?thesis
    proof (cases "callback i")
      case None
      then show ?thesis using unchanged respond_no_callback [OF i nr nt] by blast
    next
      case (Some cb)
      note cb = this
      show ?thesis
      proof (cases cb)
        case (ResolveWith f)
        then have c: "callback i = Some (ResolveWith f)" using cb by simp
        show ?thesis
          by (rule resolved [OF i nr nt c respond_resolves [OF i nr nt c]])
      next
        case (ThrowError err)
        then have c: "callback i = Some (ThrowError err)" using cb by simp
        show ?thesis
          by (rule unchanged [OF respond_throws [OF i nr nt c]])
      qed
    qed
  qed
qed

lemma respond_fields [simp]:
  "timer (snd (respond opts r st)) = timer st"
  "signal (snd (respond opts r st)) = signal st"
  "abort_listener (snd (respond opts r st)) = abort_listener st"
  "clock (snd (respond opts r st)) = clock st"
  by (cases opts r st rule: respond_cases; simp)+

lemma on_timeout_timer [simp]: "timer (on_timeout opts st) = timer st"
proof (cases "interaction st")
  case None
  then show ?thesis by (simp add: on_timeout_def)
next
  case (Some i)
  let ?st2 = "debug opts (AutoDeferred (interaction_id i)) (debug opts (TimedOutMsg (interaction_id i)) st)"
  have "timer (snd (deferResponse opts ?st2)) = timer st"
    by (simp add: deferResponse_def)
  then show ?thesis
    using Some
    by (cases "deferResponse opts ?st2"; cases "fst (deferResponse opts ?st2)")
       (auto simp add: on_timeout_def Let_def)
qed

lemma on_timeout_responded:
  "interaction st = Some i \<Longrightarrow> responded i \<Longrightarrow> on_timeout opts st = st"
  by (simp add: on_timeout_def)

lemma step_p1_timer_not_Cleared:
  "timer st \<noteq> Cleared \<Longrightarrow> timer (snd (step_p1 opts te st)) \<noteq> Cleared"
  by (auto simp: step_p1_def Let_def split: event.splits timer.splits)

lemma run_p1_timer_not_Cleared:
  "timer st \<noteq> Cleared \<Longrightarrow> timer (run_p1 opts sched st) \<noteq> Cleared"
proof (induction sched arbitrary: st)
  case Nil
  then show ?case by (simp add: run_p1_def)
next
  case (Cons te sched)
  have "timer (snd (step_p1 opts te st)) \<noteq> Cleared"
    using Cons.prems by (rule step_p1_timer_not_Cleared)
  then have "timer (run_p1 opts sched (snd (step_p1 opts te st))) \<noteq> Cleared"
    by (rule Cons.IH)
  then show ?case by (simp add: run_p1_def)
qed

subsection \<open>The state the executor leaves behind\<close>

lemma InteractionFactory_from_Some:
  assumes "InteractionFactory_from supp raw = Some i"
  shows "i = \<lparr> interaction_id = raw_id raw, itype = raw_type raw, responded = False,
               timeout = False, callback = None \<rparr>"
    and "raw_type raw \<noteq> Ping"
  using assms by (auto simp: InteractionFactory_from_def split: if_splits)

lemma processRequest_p1_created:
  assumes "parseBody e (body req) = Some raw"
    and "InteractionFactory_from (supported e) raw = Some i"
  shows "processRequest_p1 e opts req (new_call t0 sg) =
           \<lparr> promise = Pending, settled_at = None,
             interaction = Some (i\<lparr> callback := Some (ResolveWith (\<lambda>response. toResponse (Json response) None)) \<rparr>),
             timer = Scheduled (t0 + timer_delay (property opts ''replyTimeout'')),
             signal = sg, abort_listener = False, clock = t0,
             effects = [JSONParse (body req), SetTimeout (timer_delay (property opts ''replyTimeout'')),
                        Emit (InteractionCreate (interaction_id i))] \<rparr>"
  using assms by (simp add: processRequest_p1_def new_call_def perform_def useCallback_def Let_def)

lemma not_aborted_cases:
  assumes "\<forall>rsn. sg \<noteq> Some (Aborted rsn)"
  shows "sg = None \<or> sg = Some NotAborted"
proof (cases sg)
  case None
  then show ?thesis by simp
next
  case (Some a)
  then show ?thesis using assms by (cases a) simp_all
qed

lemma processRequest_p2_created:
  assumes "parse_body_arg e b = Some raw"
    and "InteractionFactory_from (supported e) raw = Some i"
    and "\<forall>rsn. sg \<noteq> Some (Aborted rsn)"
  shows "processRequest_p2 e opts b (new_call t0 sg) =
           \<lparr> promise = Pending, settled_at = None,
             interaction = Some (i\<lparr> callback := Some (ResolveWith (\<lambda>response. response)) \<rparr>),
             timer = NoTimer,
             signal = sg, abort_listener = (sg \<noteq> None), clock = t0,
             effects = (case b of StringBody s \<Rightarrow> [JSONParse (Some s)] | RecordBody r \<Rightarrow> [])
                       @ [Emit (InteractionCreate (interaction_id i))] \<rparr>"
proof -
  from assms(3) have "sg = None \<or> sg = Some NotAborted" by (rule not_aborted_cases)
  then show ?thesis
  proof
    assume "sg = None"
    then show ?thesis
      using assms(1,2)
      by (cases b) (simp_all add: processRequest_p2_def new_call_def perform_def useCallback_def)
  next
    assume "sg = Some NotAborted"
    then show ?thesis
      using assms(1,2)
      by (cases b) (simp_all add: processRequest_p2_def new_call_def perform_def useCallback_def)
  qed
qed

lemma first_response_p1:
  assumes "parseBody e (body req) = Some raw"
    and "InteractionFactory_from (supported e) raw = Some (i :: IResponse Interaction)"
  shows "promise (snd (step_p1 opts (t, Respond r1) (processRequest_p1 e opts req (new_call t0 sg))))
           = Fulfilled (toResponse (Json r1) None)"
  by (simp add: processRequest_p1_created [OF assms] InteractionFactory_from_Some(1) [OF assms(2)]
      step_p1_def respond_def apply_callback_def resolve_def)

lemma first_response_p2:
  assumes "parse_body_arg e b = Some raw"
    and "InteractionFactory_from (supported e) raw = Some (i :: APIInteractionResponse Interaction)"
    and "\<forall>rsn. sg \<noteq> Some (Aborted rsn)"
  shows "promise (snd (step_p2 opts (t, Respond r1) (processRequest_p2 e opts b (new_call t0 sg))))
           = Fulfilled r1"
  by (simp add: processRequest_p2_created [OF assms] InteractionFactory_from_Some(1) [OF assms(2)]
      step_p2_def respond_def apply_callback_def resolve_def)

lemma state_after_first_response_p1:
  assumes "parseBody e (body req) = Some raw"
    and "InteractionFactory_from (supported e) raw = Some (i :: IResponse Interaction)"
  shows "interaction (snd (step_p1 opts (t, Respond r1) (processRequest_p1 e opts req (new_call t0 sg))))
           = Some (i\<lparr> callback := Some (ResolveWith (\<lambda>response. toResponse (Json response) None)),
                      responded := True \<rparr>)"
    and "timer (snd (step_p1 opts (t, Respond r1) (processRequest_p1 e opts req (new_call t0 sg))))
           = Scheduled (t0 + timer_delay (property opts ''replyTimeout''))"
  by (simp_all add: processRequest_p1_created [OF assms] InteractionFactory_from_Some(1) [OF assms(2)]
      step_p1_def respond_def apply_callback_def)

lemma state_after_abort_p2:
  assumes "parse_body_arg e b = Some raw"
    and "InteractionFactory_from (supported e) raw = Some (i :: APIInteractionResponse Interaction)"
  shows "snd (step_p2 opts (t, Abort rsn) (processRequest_p2 e opts b (new_call t0 (Some NotAborted)))) =
           \<lparr> promise = Rejected rsn, settled_at = Some (max t0 t),
             interaction = Some (i\<lparr> callback := Some (ThrowError (Error ''Interaction timed out (via abort)'')) \<rparr>),
             timer = NoTimer,
             signal = Some (Aborted rsn), abort_listener = True, clock = max t0 t,
             effects = (case b of StringBody s \<Rightarrow> [JSONParse (Some s)] | RecordBody r \<Rightarrow> [])
                       @ [Emit (InteractionCreate (interaction_id i))] \<rparr>"
proof -
  have na: "\<forall>rsn. Some NotAborted \<noteq> Some (Aborted rsn)" by simp
  show ?thesis
    by (simp add: processRequest_p2_created [OF assms na] step_p2_def on_abort_def useCallback_def
        reject_def Let_def)
qed

subsection \<open>The concrete configuration, evaluated\<close>

lemma demo_ping_parsed:
  "parseBody demo_env (body unsigned_ping) = Some \<lparr> raw_id = ''i1'', raw_type = Ping \<rparr>"
  "parse_body_arg demo_env (StringBody ''{type:1}'') = Some \<lparr> raw_id = ''i1'', raw_type = Ping \<rparr>"
  by (simp_all add: demo_env_def unsigned_ping_def demo_parse_def parse_body_arg_def)

lemma demo_command_parsed:
  "parseBody demo_env (body command_request) = Some \<lparr> raw_id = ''i2'', raw_type = ApplicationCommand \<rparr>"
  "parse_body_arg demo_env (StringBody ''{type:2}'') = Some \<lparr> raw_id = ''i2'', raw_type = ApplicationCommand \<rparr>"
  "InteractionFactory_from (supported demo_env) \<lparr> raw_id = ''i2'', raw_type = ApplicationCommand \<rparr>
     = Some demo_command"
  by (simp_all add: demo_env_def command_request_def demo_parse_def parse_body_arg_def
      InteractionFactory_from_def demo_supported_def demo_command_def)


lemma body_command_request: "body command_request = Some ''{type:2}''"
  by (simp add: command_request_def)


lemma demo_first_response:
  "snd (step_p1 demo_defaults (10, Respond answer)
          (processRequest_p1 demo_env demo_defaults command_request (new_call 0 None))) =
     \<lparr> promise = Fulfilled (toResponse (Json answer) None), settled_at = Some 10,
       interaction = Some (demo_command\<lparr> responded := True,
                       callback := Some (ResolveWith (\<lambda>response. toResponse (Json response) None)) \<rparr>),
       timer = Scheduled 3000, signal = None, abort_listener = False, clock = 10,
       effects = [JSONParse (Some ''{type:2}''), SetTimeout 3000, Emit (InteractionCreate ''i2'')] \<rparr>"
  by (simp add: processRequest_p1_created [OF demo_command_parsed(1) demo_command_parsed(3)]
      step_p1_def respond_def apply_callback_def resolve_def debug_def property_def
      demo_defaults_def timer_delay_def demo_command_def body_command_request Let_def)

subsection \<open>A ping\<close>

text \<open>
  C3, as the code has it. When the body parses to a ping, \<open>processRequest\<close> of part_001
  resolves with the pong response, creates no interaction, sets no timer and emits nothing;
  \<open>processRequest\<close> of part_002 does the same provided the signal it was given is not
  already aborted.
\<close>

theorem ping_is_answered_with_pong:
  "(parseBody e (body req) = Some raw \<and> raw_type raw = Ping \<longrightarrow>
      promise (processRequest_p1 e opts req (new_call t0 None))
        = Fulfilled (toResponse (Json \<lparr> rtype = Pong, rdata = None \<rparr>) None)
      \<and> interaction (processRequest_p1 e opts req (new_call t0 None)) = None
      \<and> effects (processRequest_p1 e opts req (new_call t0 None)) = [JSONParse (body req)]
      \<and> promise (run_p1 opts sched (processRequest_p1 e opts req (new_call t0 None)))
        = Fulfilled (toResponse (Json \<lparr> rtype = Pong, rdata = None \<rparr>) None))
   \<and> (parse_body_arg e b = Some raw' \<and> raw_type raw' = Ping \<and> (\<forall>rsn. sg \<noteq> Some (Aborted rsn)) \<longrightarrow>
      promise (processRequest_p2 e opts b (new_call t0 sg)) = Fulfilled \<lparr> rtype = Pong, rdata = None \<rparr>
      \<and> interaction (processRequest_p2 e opts b (new_call t0 sg)) = None
      \<and> (\<forall>x. Emit x \<notin> set (effects (processRequest_p2 e opts b (new_call t0 sg))))
      \<and> promise (run_p2 opts sched (processRequest_p2 e opts b (new_call t0 sg)))
        = Fulfilled \<lparr> rtype = Pong, rdata = None \<rparr>)"
proof (intro conjI impI)
  assume a: "parseBody e (body req) = Some raw \<and> raw_type raw = Ping"
  let ?st = "processRequest_p1 e opts req (new_call t0 None)"
  have st: "?st = \<lparr> promise = Fulfilled (toResponse (Json \<lparr> rtype = Pong, rdata = None \<rparr>) None),
                    settled_at = Some t0, interaction = None, timer = NoTimer, signal = None,
                    abort_listener = False, clock = t0, effects = [JSONParse (body req)] \<rparr>"
    using a
    by (simp add: processRequest_p1_def InteractionFactory_from_def new_call_def perform_def resolve_def)
  show "promise ?st = Fulfilled (toResponse (Json \<lparr> rtype = Pong, rdata = None \<rparr>) None)"
    and "interaction ?st = None" and "effects ?st = [JSONParse (body req)]"
    by (simp_all add: st)
  have "outcome (run_p1 opts sched ?st) = outcome ?st"
    by (rule run_p1_settled) (simp add: st)
  then show "promise (run_p1 opts sched ?st)
        = Fulfilled (toResponse (Json \<lparr> rtype = Pong, rdata = None \<rparr>) None)"
    by (simp add: outcome_def st)
next
  assume a: "parse_body_arg e b = Some raw' \<and> raw_type raw' = Ping \<and> (\<forall>rsn. sg \<noteq> Some (Aborted rsn))"
  let ?st = "processRequest_p2 e opts b (new_call t0 sg)"
  have sg: "sg = None \<or> sg = Some NotAborted"
    using a by (intro not_aborted_cases) simp
  have st: "?st = \<lparr> promise = Fulfilled \<lparr> rtype = Pong, rdata = None \<rparr>,
                    settled_at = Some t0, interaction = None, timer = NoTimer, signal = sg,
                    abort_listener = False, clock = t0,
                    effects = (case b of StringBody s \<Rightarrow> [JSONParse (Some s)] | RecordBody r \<Rightarrow> []) \<rparr>"
    using sg
  proof
    assume "sg = None"
    then show ?thesis
      using a
      by (cases b)
         (simp_all add: processRequest_p2_def InteractionFactory_from_def new_call_def perform_def
           resolve_def)
  next
    assume "sg = Some NotAborted"
    then show ?thesis
      using a
      by (cases b)
         (simp_all add: processRequest_p2_def InteractionFactory_from_def new_call_def perform_def
           resolve_def)
  qed
  show "promise ?st = Fulfilled \<lparr> rtype = Pong, rdata = None \<rparr>" and "interaction ?st = None"
    by (simp_all add: st)
  have "effects ?st = (case b of StringBody s \<Rightarrow> [JSONParse (Some s)] | RecordBody r \<Rightarrow> [])"
    by (simp add: st)
  then show "\<forall>x. Emit x \<notin> set (effects ?st)"
    by (simp split: body_arg.splits)
  have "outcome (run_p2 opts sched ?st) = outcome ?st"
    by (rule run_p2_settled) (simp add: st)
  then show "promise (run_p2 opts sched ?st) = Fulfilled \<lparr> rtype = Pong, rdata = None \<rparr>"
    by (simp add: outcome_def st)
qed

theorem ping_is_answered_with_pong_witness:
  "parseBody demo_env (body unsigned_ping) = Some \<lparr> raw_id = ''i1'', raw_type = Ping \<rparr>
   \<and> parse_body_arg demo_env (StringBody ''{type:1}'') = Some \<lparr> raw_id = ''i1'', raw_type = Ping \<rparr>
   \<and> (\<forall>rsn. Some NotAborted \<noteq> Some (Aborted rsn))
   \<and> promise (processRequest_p1 demo_env demo_defaults unsigned_ping (new_call 0 None))
        = Fulfilled (toResponse (Json \<lparr> rtype = Pong, rdata = None \<rparr>) None)
   \<and> effects (processRequest_p1 demo_env demo_defaults unsigned_ping (new_call 0 None))
        = [JSONParse (Some ''{type:1}'')]
   \<and> promise (processRequest_p2 demo_env demo_defaults (StringBody ''{type:1}'')
         (new_call 0 (Some NotAborted))) = Fulfilled \<lparr> rtype = Pong, rdata = None \<rparr>
   \<and> interaction (processRequest_p2 demo_env demo_defaults (StringBody ''{type:1}'')
         (new_call 0 (Some NotAborted))) = None"
proof -
  have na: "\<forall>rsn. Some NotAborted \<noteq> Some (Aborted rsn)" by simp
  have b: "body unsigned_ping = Some ''{type:1}''" by (simp add: unsigned_ping_def)
  show ?thesis
    using demo_ping_parsed na b
      ping_is_answered_with_pong [of demo_env unsigned_ping "\<lparr> raw_id = ''i1'', raw_type = Ping \<rparr>"
        demo_defaults 0 "[]" "StringBody ''{type:1}''" "\<lparr> raw_id = ''i1'', raw_type = Ping \<rparr>"
        "Some NotAborted"]
    by simp
qed

text \<open>
  The statement of C3 fails in part_002 for a signal that is already aborted: the call
  rejects with the signal's reason before the body is looked at.
\<close>

theorem ping_with_aborted_signal_counterexample:
  "parse_body_arg demo_env (StringBody ''{type:1}'') = Some \<lparr> raw_id = ''i1'', raw_type = Ping \<rparr>
   \<and> promise (processRequest_p2 demo_env demo_defaults (StringBody ''{type:1}'')
         (new_call 0 (Some (Aborted (Foreign ''Time out''))))) = Rejected (Foreign ''Time out'')
   \<and> effects (processRequest_p2 demo_env demo_defaults (StringBody ''{type:1}'')
         (new_call 0 (Some (Aborted (Foreign ''Time out''))))) = []"
  by (simp add: demo_ping_parsed processRequest_p2_def new_call_def reject_def)

subsection \<open>One resolution\<close>

text \<open>
  C2. A settled promise is never changed: whatever happens afterwards (responses, the timer,
  an abort), in either handler, the promise holds what it was first settled with, at the time
  it was settled. When the subscriber's response comes first, the promise holds that response
  for good. A response to an interaction that has responded or timed out is rejected with
  the double-response condition and changes nothing.
\<close>

theorem single_resolution:
  "(promise st \<noteq> Pending \<longrightarrow> outcome (run_p1 opts sched st) = outcome st)
   \<and> (promise st' \<noteq> Pending \<longrightarrow> outcome (run_p2 opts sched st') = outcome st')
   \<and> (parseBody e (body req) = Some raw \<and> InteractionFactory_from (supported e) raw = Some (i :: IResponse Interaction) \<longrightarrow>
        promise (run_p1 opts ((t, Respond r1) # sched) (processRequest_p1 e opts req (new_call t0 None)))
          = Fulfilled (toResponse (Json r1) None))
   \<and> (parse_body_arg e b = Some raw' \<and> InteractionFactory_from (supported e) raw' = Some (i' :: APIInteractionResponse Interaction)
        \<and> (\<forall>rsn. sg \<noteq> Some (Aborted rsn)) \<longrightarrow>
        promise (run_p2 opts ((t, Respond r1) # sched) (processRequest_p2 e opts b (new_call t0 sg)))
          = Fulfilled r1)
   \<and> (interaction st = Some j \<and> (responded j \<or> timeout j) \<longrightarrow>
        respond opts r2 st = (Some DoubleResponse, st))"
proof (intro conjI impI)
  assume "promise st \<noteq> Pending"
  then show "outcome (run_p1 opts sched st) = outcome st" by (rule run_p1_settled)
next
  assume "promise st' \<noteq> Pending"
  then show "outcome (run_p2 opts sched st') = outcome st'" by (rule run_p2_settled)
next
  assume a: "parseBody e (body req) = Some raw \<and> InteractionFactory_from (supported e) raw = Some i"
  let ?st1 = "snd (step_p1 opts (t, Respond r1) (processRequest_p1 e opts req (new_call t0 None)))"
  have p: "promise ?st1 = Fulfilled (toResponse (Json r1) None)"
    using a first_response_p1 by blast
  then have "outcome (run_p1 opts sched ?st1) = outcome ?st1"
    by (intro run_p1_settled) simp
  then show "promise (run_p1 opts ((t, Respond r1) # sched) (processRequest_p1 e opts req (new_call t0 None)))
          = Fulfilled (toResponse (Json r1) None)"
    using p by (simp add: run_p1_def outcome_def)
next
  assume a: "parse_body_arg e b = Some raw' \<and> InteractionFactory_from (supported e) raw' = Some i'
        \<and> (\<forall>rsn. sg \<noteq> Some (Aborted rsn))"
  let ?st1 = "snd (step_p2 opts (t, Respond r1) (processRequest_p2 e opts b (new_call t0 sg)))"
  have p: "promise ?st1 = Fulfilled r1"
    using a first_response_p2 by blast
  then have "outcome (run_p2 opts sched ?st1) = outcome ?st1"
    by (intro run_p2_settled) simp
  then show "promise (run_p2 opts ((t, Respond r1) # sched) (processRequest_p2 e opts b (new_call t0 sg)))
          = Fulfilled r1"
    using p by (simp add: run_p2_def outcome_def)
next
  assume "interaction st = Some j \<and> (responded j \<or> timeout j)"
  then show "respond opts r2 st = (Some DoubleResponse, st)"
    using respond_done by blast
qed

theorem single_resolution_witness:
  "promise (snd (step_p1 demo_defaults (10, Respond answer)
       (processRequest_p1 demo_env demo_defaults command_request (new_call 0 None)))) \<noteq> Pending
   \<and> outcome (run_p1 demo_defaults [(20, Respond late_answer), (3000, TimerFires)]
        (snd (step_p1 demo_defaults (10, Respond answer)
           (processRequest_p1 demo_env demo_defaults command_request (new_call 0 None)))))
       = (Fulfilled (toResponse (Json answer) None), Some 10)
   \<and> promise (snd (step_p2 demo_defaults (5, Abort (Foreign ''Time out''))
        (processRequest_p2 demo_env demo_defaults (StringBody ''{type:2}'') (new_call 0 (Some NotAborted)))))
       \<noteq> Pending
   \<and> outcome (run_p2 demo_defaults [(20, Respond late_answer), (3000, TimerFires)]
        (snd (step_p2 demo_defaults (5, Abort (Foreign ''Time out''))
           (processRequest_p2 demo_env demo_defaults (StringBody ''{type:2}'') (new_call 0 (Some NotAborted))))))
       = (Rejected (Foreign ''Time out''), Some 5)
   \<and> parseBody demo_env (body command_request) = Some \<lparr> raw_id = ''i2'', raw_type = ApplicationCommand \<rparr>
   \<and> InteractionFactory_from (supported demo_env) \<lparr> raw_id = ''i2'', raw_type = ApplicationCommand \<rparr>
       = Some (demo_command :: IResponse Interaction)
   \<and> promise (run_p1 demo_defaults [(10, Respond answer), (20, Respond late_answer), (3000, TimerFires)]
        (processRequest_p1 demo_env demo_defaults command_request (new_call 0 None)))
       = Fulfilled (toResponse (Json answer) None)
   \<and> parse_body_arg demo_env (StringBody ''{type:2}'')
       = Some \<lparr> raw_id = ''i2'', raw_type = ApplicationCommand \<rparr>
   \<and> InteractionFactory_from (supported demo_env) \<lparr> raw_id = ''i2'', raw_type = ApplicationCommand \<rparr>
       = Some (demo_command :: APIInteractionResponse Interaction)
   \<and> (\<forall>rsn. Some NotAborted \<noteq> Some (Aborted rsn))
   \<and> promise (run_p2 demo_defaults [(10, Respond answer), (20, Respond late_answer), (3000, TimerFires)]
        (processRequest_p2 demo_env demo_defaults (StringBody ''{type:2}'') (new_call 0 (Some NotAborted))))
       = Fulfilled answer
   \<and> respond demo_defaults late_answer
        (snd (step_p1 demo_defaults (10, Respond answer)
           (processRequest_p1 demo_env demo_defaults command_request (new_call 0 None))))
       = (Some DoubleResponse,
          snd (step_p1 demo_defaults (10, Respond answer)
           (processRequest_p1 demo_env demo_defaults command_request (new_call 0 None))))"
proof -
  let ?st = "snd (step_p1 demo_defaults (10, Respond answer)
       (processRequest_p1 demo_env demo_defaults command_request (new_call 0 None)))"
  let ?st' = "snd (step_p2 demo_defaults (5, Abort (Foreign ''Time out''))
        (processRequest_p2 demo_env demo_defaults (StringBody ''{type:2}'') (new_call 0 (Some NotAborted))))"
  have st: "promise ?st \<noteq> Pending" "outcome ?st = (Fulfilled (toResponse (Json answer) None), Some 10)"
    and i: "interaction ?st = Some (demo_command\<lparr> responded := True,
              callback := Some (ResolveWith (\<lambda>response. toResponse (Json response) None)) \<rparr>)"
    by (simp_all add: demo_first_response outcome_def)
  have st': "promise ?st' \<noteq> Pending" "outcome ?st' = (Rejected (Foreign ''Time out''), Some 5)"
    by (simp_all add: state_after_abort_p2 [OF demo_command_parsed(2) demo_command_parsed(3)]
        outcome_def)
  have na: "\<forall>rsn. Some NotAborted \<noteq> Some (Aborted rsn)" by simp
  have r: "responded (demo_command\<lparr> responded := True,
              callback := Some (ResolveWith (\<lambda>response. toResponse (Json response) None)) \<rparr>
            :: IResponse Interaction)"
    by simp
  show ?thesis
    using st st' i r na demo_command_parsed(1,2)
      demo_command_parsed(3) [where ?'a = IResponse]
      demo_command_parsed(3) [where ?'a = APIInteractionResponse]
      single_resolution [where st = ?st and st' = ?st' and opts = demo_defaults
        and sched = "[(20, Respond late_answer), (3000, TimerFires)]"
        and e = demo_env and req = command_request
        and raw = "\<lparr> raw_id = ''i2'', raw_type = ApplicationCommand \<rparr>" and i = demo_command
        and t = 10 and ?r1.0 = answer and ?t0.0 = 0 and b = "StringBody ''{type:2}''"
        and raw' = "\<lparr> raw_id = ''i2'', raw_type = ApplicationCommand \<rparr>" and i' = demo_command
        and sg = "Some NotAborted"
        and j = "demo_command\<lparr> responded := True,
              callback := Some (ResolveWith (\<lambda>response. toResponse (Json response) None)) \<rparr>"
        and ?r2.0 = late_answer]
    by simp
qed

subsection \<open>The reply timeout\<close>












subsection \<open>The timer after a response\<close>

text \<open>
  C5, as the code has it. No path calls \<open>clearTimeout\<close>: after the subscriber's response
  the timer is still scheduled for \<open>replyTimeout\<close> after the call, it is never cleared,
  and the runtime fires it at or after that time. Its function then finds the interaction
  responded and does nothing: the state is the same but for the clock and the spent timer.
\<close>

theorem timer_outlives_resolution:
  fixes e :: "('raw, 'k) env" and opts :: object and req :: IRequest and t0 t1 :: nat
    and r :: APIInteractionResponse
  assumes "parseBody e (body req) = Some raw"
    and "InteractionFactory_from (supported e) raw = Some (i :: IResponse Interaction)"
  defines "st1 \<equiv> snd (step_p1 opts (t1, Respond r) (processRequest_p1 e opts req (new_call t0 None)))"
    and "due \<equiv> t0 + timer_delay (property opts ''replyTimeout'')"
  shows "promise st1 = Fulfilled (toResponse (Json r) None)
         \<and> timer st1 = Scheduled due
         \<and> (\<forall>t. due \<le> t \<longrightarrow>
               step_p1 opts (t, TimerFires) st1 = (None, st1\<lparr> clock := max (clock st1) t, timer := Fired \<rparr>))
         \<and> (\<forall>sched. timer (run_p1 opts sched st1) \<noteq> Cleared)"
proof (intro conjI allI impI)
  show "promise st1 = Fulfilled (toResponse (Json r) None)"
    unfolding st1_def by (rule first_response_p1 [OF assms(1,2)])
  show tm: "timer st1 = Scheduled due"
    unfolding st1_def due_def by (rule state_after_first_response_p1(2) [OF assms(1,2)])
  show "timer (run_p1 opts sched st1) \<noteq> Cleared" for sched
    by (rule run_p1_timer_not_Cleared) (simp add: tm)
  show "step_p1 opts (t, TimerFires) st1 = (None, st1\<lparr> clock := max (clock st1) t, timer := Fired \<rparr>)"
    if "due \<le> t" for t
  proof -
    have i: "interaction (st1\<lparr> clock := max (clock st1) t, timer := Fired \<rparr>)
               = Some (i\<lparr> callback := Some (ResolveWith (\<lambda>response. toResponse (Json response) None)),
                          responded := True \<rparr>)"
      unfolding st1_def using state_after_first_response_p1(1) [OF assms(1,2)] by simp
    have "on_timeout opts (st1\<lparr> clock := max (clock st1) t, timer := Fired \<rparr>)
            = st1\<lparr> clock := max (clock st1) t, timer := Fired \<rparr>"
      by (rule on_timeout_responded [OF i]) simp
    then show ?thesis
      using tm that by (simp add: step_p1_def Let_def max_def)
  qed
qed

theorem timer_outlives_resolution_witness:
  "parseBody demo_env (body command_request) = Some \<lparr> raw_id = ''i2'', raw_type = ApplicationCommand \<rparr>
   \<and> InteractionFactory_from (supported demo_env) \<lparr> raw_id = ''i2'', raw_type = ApplicationCommand \<rparr>
       = Some (demo_command :: IResponse Interaction)
   \<and> (0 + timer_delay (property demo_defaults ''replyTimeout'') \<le> 3000)
   \<and> step_p1 demo_defaults (3000, TimerFires)
         (snd (step_p1 demo_defaults (10, Respond answer)
            (processRequest_p1 demo_env demo_defaults command_request (new_call 0 None))))
       = (None, (snd (step_p1 demo_defaults (10, Respond answer)
            (processRequest_p1 demo_env demo_defaults command_request (new_call 0 None))))
           \<lparr> clock := 3000, timer := Fired \<rparr>)"
proof -
  have d: "0 + timer_delay (property demo_defaults ''replyTimeout'') \<le> 3000"
    by (simp add: timer_delay_def property_def demo_defaults_def)
  have c: "clock (snd (step_p1 demo_defaults (10, Respond answer)
            (processRequest_p1 demo_env demo_defaults command_request (new_call 0 None)))) = 10"
    by (simp add: demo_first_response)
  show ?thesis
    using d c demo_command_parsed(1) demo_command_parsed(3) [where ?'a = IResponse]
      timer_outlives_resolution [OF demo_command_parsed(1) demo_command_parsed(3), of demo_defaults 10 answer 0]
    by simp
qed

text \<open>
  The statement of C5 fails: after the subscriber has answered at time 10 the timer is
  still scheduled for time 3000, and at that time it fires.
\<close>

theorem timer_not_cancelled_counterexample:
  "promise (snd (step_p1 demo_defaults (10, Respond answer)
       (processRequest_p1 demo_env demo_defaults command_request (new_call 0 None))))
     = Fulfilled (toResponse (Json answer) None)
   \<and> timer (snd (step_p1 demo_defaults (10, Respond answer)
       (processRequest_p1 demo_env demo_defaults command_request (new_call 0 None))))
     = Scheduled 3000
   \<and> timer (snd (step_p1 demo_defaults (10, Respond answer)
       (processRequest_p1 demo_env demo_defaults command_request (new_call 0 None))))
     \<noteq> Cleared
   \<and> timer (snd (step_p1 demo_defaults (3000, TimerFires)
       (snd (step_p1 demo_defaults (10, Respond answer)
          (processRequest_p1 demo_env demo_defaults command_request (new_call 0 None))))))
     = Fired"
  unfolding demo_first_response
  by (simp add: step_p1_def on_timeout_def demo_command_def Let_def)

subsection \<open>The abort signal\<close>

text \<open>
  C6, as the code has it. With a signal that is already aborted the call rejects with the
  signal's reason; nothing is parsed and no interaction is created. When the signal aborts
  after the interaction was created and before any response, the listener first replaces
  the interaction's callback by one that throws, then rejects the promise with the
  signal's reason; the flags \<open>responded\<close> and \<open>timeout\<close> stay unset. Every later
  response is rejected with the error the callback throws, and the promise keeps the
  signal's reason.
\<close>

theorem abort_rejects_and_disables:
  fixes e :: "('raw, 'k) env" and i :: "APIInteractionResponse Interaction"
  shows
  "promise (processRequest_p2 e opts b (new_call t0 (Some (Aborted rsn)))) = Rejected rsn
   \<and> interaction (processRequest_p2 e opts b (new_call t0 (Some (Aborted rsn)))) = None
   \<and> effects (processRequest_p2 e opts b (new_call t0 (Some (Aborted rsn)))) = []
   \<and> (parse_body_arg e b = Some raw \<and> InteractionFactory_from (supported e) raw = Some i \<longrightarrow>
        promise (snd (step_p2 opts (t, Abort rsn)
                   (processRequest_p2 e opts b (new_call t0 (Some NotAborted))))) = Rejected rsn
        \<and> interaction (snd (step_p2 opts (t, Abort rsn)
                   (processRequest_p2 e opts b (new_call t0 (Some NotAborted)))))
            = Some (i\<lparr> callback := Some (ThrowError (Error ''Interaction timed out (via abort)'')) \<rparr>)
        \<and> \<not> responded i \<and> \<not> timeout i
        \<and> (\<forall>t' r. fst (step_p2 opts (t', Respond r) (snd (step_p2 opts (t, Abort rsn)
                   (processRequest_p2 e opts b (new_call t0 (Some NotAborted))))))
               = Some (Error ''Interaction timed out (via abort)''))
        \<and> (\<forall>sched. outcome (run_p2 opts sched (snd (step_p2 opts (t, Abort rsn)
                   (processRequest_p2 e opts b (new_call t0 (Some NotAborted))))))
               = (Rejected rsn, Some (max t0 t))))"
proof (intro conjI impI allI)
  show "promise (processRequest_p2 e opts b (new_call t0 (Some (Aborted rsn)))) = Rejected rsn"
    and "interaction (processRequest_p2 e opts b (new_call t0 (Some (Aborted rsn)))) = None"
    and "effects (processRequest_p2 e opts b (new_call t0 (Some (Aborted rsn)))) = []"
    by (simp_all add: processRequest_p2_def new_call_def reject_def)
next
  assume a: "parse_body_arg e b = Some raw \<and> InteractionFactory_from (supported e) raw = Some i"
  then have p: "parse_body_arg e b = Some raw"
    and f: "InteractionFactory_from (supported e) raw = Some i" by simp_all
  let ?st1 = "snd (step_p2 opts (t, Abort rsn) (processRequest_p2 e opts b (new_call t0 (Some NotAborted))))"
  note st1 = state_after_abort_p2 [OF p f, of opts t rsn t0]
  show "promise ?st1 = Rejected rsn" by (simp add: st1)
  show "interaction ?st1
          = Some (i\<lparr> callback := Some (ThrowError (Error ''Interaction timed out (via abort)'')) \<rparr>)"
    by (simp add: st1)
  show nr: "\<not> responded i" and nt: "\<not> timeout i"
    using InteractionFactory_from_Some(1) [OF f] by simp_all
  show "fst (step_p2 opts (t', Respond r) ?st1) = Some (Error ''Interaction timed out (via abort)'')"
    for t' r
    unfolding st1 using nr nt
    by (simp add: step_p2_def respond_def apply_callback_def Let_def)
  have "outcome (run_p2 opts sched ?st1) = outcome ?st1" for sched
    by (rule run_p2_settled) (simp add: st1)
  then show "outcome (run_p2 opts sched ?st1) = (Rejected rsn, Some (max t0 t))" for sched
    by (simp add: st1 outcome_def)
qed

theorem abort_rejects_and_disables_witness:
  "parse_body_arg demo_env (StringBody ''{type:2}'') = Some \<lparr> raw_id = ''i2'', raw_type = ApplicationCommand \<rparr>
   \<and> InteractionFactory_from (supported demo_env) \<lparr> raw_id = ''i2'', raw_type = ApplicationCommand \<rparr>
       = Some (demo_command :: APIInteractionResponse Interaction)
   \<and> promise (snd (step_p2 demo_defaults (5, Abort (Foreign ''Time out''))
        (processRequest_p2 demo_env demo_defaults (StringBody ''{type:2}'') (new_call 0 (Some NotAborted)))))
       = Rejected (Foreign ''Time out'')
   \<and> outcome (run_p2 demo_defaults [(6, Respond answer)]
        (snd (step_p2 demo_defaults (5, Abort (Foreign ''Time out''))
          (processRequest_p2 demo_env demo_defaults (StringBody ''{type:2}'') (new_call 0 (Some NotAborted))))))
       = (Rejected (Foreign ''Time out''), Some 5)"
  using demo_command_parsed(2) demo_command_parsed(3) [where ?'a = APIInteractionResponse]
    abort_rejects_and_disables [of demo_env demo_defaults "StringBody ''{type:2}''" 0
      "Foreign ''Time out''" "\<lparr> raw_id = ''i2'', raw_type = ApplicationCommand \<rparr>" demo_command 5]
  by simp

text \<open>
  The statement of C6 fails where it calls a later response a no-op and the interaction
  finalized: after the abort the flags are both unset, and a response throws
  \<open>Interaction timed out (via abort)\<close> at the subscriber.
\<close>

theorem response_after_abort_throws_counterexample:
  "promise (snd (step_p2 demo_defaults (5, Abort (Foreign ''Time out''))
        (processRequest_p2 demo_env demo_defaults (StringBody ''{type:2}'') (new_call 0 (Some NotAborted)))))
     = Rejected (Foreign ''Time out'')
   \<and> map_option responded (interaction (snd (step_p2 demo_defaults (5, Abort (Foreign ''Time out''))
        (processRequest_p2 demo_env demo_defaults (StringBody ''{type:2}'') (new_call 0 (Some NotAborted))))))
     = Some False
   \<and> map_option timeout (interaction (snd (step_p2 demo_defaults (5, Abort (Foreign ''Time out''))
        (processRequest_p2 demo_env demo_defaults (StringBody ''{type:2}'') (new_call 0 (Some NotAborted))))))
     = Some False
   \<and> fst (step_p2 demo_defaults (6, Respond answer)
        (snd (step_p2 demo_defaults (5, Abort (Foreign ''Time out''))
          (processRequest_p2 demo_env demo_defaults (StringBody ''{type:2}'') (new_call 0 (Some NotAborted))))))
     = Some (Error ''Interaction timed out (via abort)'')"
  unfolding state_after_abort_p2 [OF demo_command_parsed(2) demo_command_parsed(3)]
  by (simp add: step_p2_def respond_def apply_callback_def demo_command_def Let_def)

subsection \<open>The REST helpers\<close>

lemma issued_methods_makeRequest:
  "issued_methods (makeRequest r fetch method path opts) = [method]"
  by (simp add: issued_methods_def makeRequest_def Let_def)

text \<open>
  C9 (the code departs from it). Each helper hands exactly one request to \<open>fetch\<close>;
  \<open>get\<close> and \<open>delete\<close> issue GET and DELETE, but \<open>post\<close> and \<open>patch\<close> issue GET, and
  \<open>put\<close> passes the lower-case string \<open>put\<close>.
\<close>

theorem rest_helpers_issued_methods:
  "issued_methods (get r fetch path opts) = [''GET'']
   \<and> issued_methods (post r fetch path opts) = [''GET'']
   \<and> issued_methods (put r fetch path opts) = [''put'']
   \<and> issued_methods (patch r fetch path opts) = [''GET'']
   \<and> issued_methods (delete r fetch path opts) = [''DELETE'']
   \<and> post r fetch path opts = get r fetch path opts
   \<and> patch r fetch path opts = get r fetch path opts"
  by (simp add: get_def post_def put_def patch_def delete_def issued_methods_makeRequest)

end
